theory Spec2Isabelle
  imports Complex_Main "HOL-Library.Multiset"
begin

section \<open>Numbers\<close>

text \<open>
  The program is TypeScript; every numeric quantity is a JavaScript number, a double.
  Finite numbers are reals here, and \<open>NaN\<close> is a value of its own where the source can
  produce it by dividing zero by zero. Comparisons with \<open>NaN\<close> are false and arithmetic
  on it gives \<open>NaN\<close>. Durations, timestamps and intervals are taken as the reals
  they denote; the arithmetic on token counts rounds every operation to a double, as
  set out below.
\<close>

datatype number = NaN | Num real

fun gtN :: "number \<Rightarrow> number \<Rightarrow> bool" where
  "gtN (Num a) (Num b) = (a > b)"
| "gtN _ _ = False"

fun geN :: "number \<Rightarrow> number \<Rightarrow> bool" where
  "geN (Num a) (Num b) = (a \<ge> b)"
| "geN _ _ = False"

text \<open>The remainder operator \<open>%\<close> truncates the quotient towards zero.\<close>

definition jsRem :: "real \<Rightarrow> real \<Rightarrow> real" where
  "jsRem x y = x - y * of_int (if 0 \<le> x / y then \<lfloor>x / y\<rfloor> else \<lceil>x / y\<rceil>)"

subsection \<open>Double precision\<close>

text \<open>
  The two token estimators multiply and divide by constants that are not integers, and
  their results are rounded up by \<open>Math.ceil\<close>, so the rounding of each operation to a
  double decides the result. \<open>toDouble\<close> rounds a real to the nearest number with a
  significand of 53 bits, ties to the even significand; the exponent range of doubles
  is not modelled (no overflow to \<open>Infinity\<close>, no gradual underflow). \<open>exponent x\<close>
  is the \<open>e\<close> with \<open>2 powi e \<le> x < 2 powi (e + 1)\<close> for positive \<open>x\<close>.
\<close>

function exponentUp :: "real \<Rightarrow> nat" where
  "exponentUp x = (if x < 2 then 0 else Suc (exponentUp (x / 2)))"
  by pat_completeness auto
termination
proof (relation "measure (\<lambda>x. nat \<lfloor>x\<rfloor>)")
  fix x :: real
  assume large: "\<not> x < 2"
  then have "\<lfloor>x / 2\<rfloor> < \<lfloor>x\<rfloor>" by linarith
  moreover have "0 < \<lfloor>x\<rfloor>" using large by linarith
  ultimately show "(x / 2, x) \<in> measure (\<lambda>x. nat \<lfloor>x\<rfloor>)" by simp
qed simp

declare exponentUp.simps [simp del]

function exponentDown :: "real \<Rightarrow> nat" where
  "exponentDown x = (if x \<le> 0 \<or> 1 \<le> x then 0 else Suc (exponentDown (2 * x)))"
  by pat_completeness auto
termination
proof (relation "measure (\<lambda>x. nat \<lceil>1 / x\<rceil>)")
  fix x :: real
  assume "\<not> (x \<le> 0 \<or> 1 \<le> x)"
  then have x: "0 < x" "x < 1" by auto
  then have big: "1 < 1 / x" by simp
  moreover have "1 / (2 * x) = (1 / x) / 2" by simp
  moreover have "1 / x \<le> of_int \<lceil>1 / x\<rceil>" by linarith
  moreover have "2 \<le> \<lceil>1 / x\<rceil>" using big by linarith
  ultimately have "\<lceil>1 / (2 * x)\<rceil> < \<lceil>1 / x\<rceil>" by linarith
  moreover have "0 < \<lceil>1 / x\<rceil>" using big by linarith
  ultimately show "(2 * x, x) \<in> measure (\<lambda>x. nat \<lceil>1 / x\<rceil>)" by simp
qed simp

declare exponentDown.simps [simp del]

definition exponent :: "real \<Rightarrow> int" where
  "exponent x = (if 1 \<le> x then int (exponentUp x) else - int (exponentDown x))"

definition roundEven :: "real \<Rightarrow> int" where
  "roundEven y =
     (let f = \<lfloor>y\<rfloor>; d = y - of_int f
      in if d < 1 / 2 then f else if 1 / 2 < d then f + 1 else if even f then f else f + 1)"

definition toDouble :: "real \<Rightarrow> real" where
  "toDouble x =
     (if x = 0 then 0
      else let ulp = 2 powi (exponent \<bar>x\<bar> - 52)
           in sgn x * of_int (roundEven (\<bar>x\<bar> / ulp)) * ulp)"

text \<open>The operators \<open>*\<close> and \<open>/\<close> on doubles.\<close>

definition mulD :: "real \<Rightarrow> real \<Rightarrow> real" where
  "mulD a b = toDouble (a * b)"

definition divD :: "real \<Rightarrow> real \<Rightarrow> real" where
  "divD a b = toDouble (a / b)"

text \<open>The operators \<open>+\<close> and \<open>*\<close> on numbers that may be \<open>NaN\<close>.\<close>

fun addN :: "number \<Rightarrow> number \<Rightarrow> number" where
  "addN (Num a) (Num b) = Num (toDouble (a + b))"
| "addN _ _ = NaN"

fun mulN :: "number \<Rightarrow> number \<Rightarrow> number" where
  "mulN (Num a) (Num b) = Num (mulD a b)"
| "mulN _ _ = NaN"

text \<open>\<open>Math.round(x / 1000)\<close>; \<open>Math.round\<close> rounds halves up, as \<^const>\<open>round\<close> does.\<close>

fun roundThousands :: "number \<Rightarrow> number" where
  "roundThousands (Num a) = Num (of_int (round (divD a 1000)))"
| "roundThousands NaN = NaN"

subsection \<open>Numbers in template strings\<close>

function showNat :: "nat \<Rightarrow> string" where
  "showNat n = (if n < 10 then [''0123456789'' ! n]
                else showNat (n div 10) @ [''0123456789'' ! (n mod 10)])"
  by pat_completeness auto
termination
  by (relation "measure id") auto

declare showNat.simps [simp del]

definition showInt :: "int \<Rightarrow> string" where
  "showInt i = (if i < 0 then ''-'' @ showNat (nat (- i)) else showNat (nat i))"

text \<open>Only integral numbers are ever interpolated into a string by the program.\<close>

fun showNumber :: "number \<Rightarrow> string" where
  "showNumber NaN = ''NaN''"
| "showNumber (Num a) = showInt \<lfloor>a\<rfloor>"

definition padStart2 :: "string \<Rightarrow> string" where
  "padStart2 s = replicate (2 - length s) (CHR ''0'') @ s"

section \<open>Types (types.ts)\<close>

record VideoMetadata =
  duration :: real
  width :: nat
  height :: nat
  fps :: real
  codec :: string
  format :: string
  bitrate :: real
  hasAudio :: bool
  audioCodec :: "string option"
  fileSize :: "nat option"

datatype aspect = DurationAspect | ResolutionAspect | AudioAspect | FormatAspect

record AnalysisHint =
  aspect :: aspect
  recommendation :: string
  parameters :: "(string \<times> real) list option"

record VideoMetadataSummary =
  durationFormatted :: string
  resolution :: string
  humanDescription :: string
  analysisHints :: "AnalysisHint list"

record FrameReference =
  index :: nat
  timestamp :: real
  timestampFormatted :: string
  frameResolution :: string
  estimatedTokens :: number

record FrameData = FrameReference +
  base64 :: string
  mimeType :: string

record VideoFrame =
  frameTimestamp :: real
  frameBase64 :: string
  frameWidth :: nat
  frameHeight :: nat

datatype hintType = Action | Warning | Info | Suggestion

record ContextHint =
  hintType :: hintType
  message :: string
  suggestedTool :: "string option"
  priority :: int

record audioStatus =
  available :: bool
  durationSeconds :: "real option"

record VideoOverview =
  videoPath :: string
  filename :: string
  metadata :: VideoMetadataSummary
  availableFrames :: "FrameReference list"
  audio :: audioStatus
  contextHints :: "ContextHint list"

record VideoAnalysis =
  analysisMetadata :: VideoMetadata
  frames :: "VideoFrame list"
  audioPath :: "string option"

record TokenEstimate =
  metadataTokens :: real
  perFrame :: number
  total :: number
  warning :: "string option"

datatype imageFormat = Jpeg | Png

datatype audioFormat = Mp3 | Wav

section \<open>Token estimation constants\<close>

text \<open>A decimal literal denotes the double nearest to it.\<close>

definition TOKENS_PER_KB_BASE64 :: real where
  "TOKENS_PER_KB_BASE64 = toDouble 1.33"

definition TOKENS_PER_CHAR :: real where
  "TOKENS_PER_CHAR = toDouble 0.25"

definition BASE_METADATA_TOKENS :: real where
  "BASE_METADATA_TOKENS = 150"

definition WARNING_TOKEN_THRESHOLD :: real where
  "WARNING_TOKEN_THRESHOLD = 50000"

section \<open>Pure methods of VideoProcessor\<close>

definition formatTimestamp :: "real \<Rightarrow> string" where
  "formatTimestamp seconds =
     (let mins = \<lfloor>seconds / 60\<rfloor>;
          secs = \<lfloor>jsRem seconds 60\<rfloor>
      in showInt mins @ '':'' @ padStart2 (showInt secs))"

definition estimateBase64Tokens :: "nat \<Rightarrow> real" where
  "estimateBase64Tokens base64Length =
     (let kbSize = divD (real base64Length) 1024
      in of_int \<lceil>mulD (mulD (mulD kbSize TOKENS_PER_KB_BASE64) 1000) TOKENS_PER_CHAR\<rceil>)"

definition getResolutionLabel :: "nat \<Rightarrow> nat \<Rightarrow> string" where
  "getResolutionLabel w h =
     (let pixels = w * h in
      if pixels \<ge> 3840 * 2160 then ''4K Ultra HD''
      else if pixels \<ge> 1920 * 1080 then ''Full HD''
      else if pixels \<ge> 1280 * 720 then ''HD''
      else if pixels \<ge> 854 * 480 then ''SD''
      else ''Low resolution'')"

definition getDurationLabel :: "real \<Rightarrow> string" where
  "getDurationLabel seconds =
     (if seconds < 60 then showInt (round seconds) @ '' seconds''
      else if seconds < 3600 then showInt (round (seconds / 60)) @ '' minutes''
      else let hours = \<lfloor>seconds / 3600\<rfloor>;
               mins = round (jsRem seconds 3600 / 60)
           in showInt hours @ ''h '' @ showInt mins @ ''m'')"

definition generateAnalysisHints :: "VideoMetadata \<Rightarrow> AnalysisHint list" where
  "generateAnalysisHints m =
     [if duration m < 30 then
        \<lparr>aspect = DurationAspect,
         recommendation = ''Short video - extract all key frames (5-10 frames recommended)'',
         parameters = Some [(''maxFrames'', 10), (''interval'', max 1 (duration m / 10))]\<rparr>
      else if duration m < 300 then
        \<lparr>aspect = DurationAspect,
         recommendation = ''Medium video - sample frames at regular intervals'',
         parameters = Some [(''maxFrames'', 15), (''interval'', of_int \<lfloor>duration m / 15\<rfloor>)]\<rparr>
      else
        \<lparr>aspect = DurationAspect,
         recommendation = ''Long video - consider extracting frames progressively by time ranges'',
         parameters = Some [(''maxFrames'', 20), (''interval'', of_int \<lfloor>duration m / 20\<rfloor>)]\<rparr>]
     @ (if width m > 1920 then
          [\<lparr>aspect = ResolutionAspect,
            recommendation = ''High resolution video - frames will be resized to 1920px max width for efficiency'',
            parameters = Some [(''maxWidth'', 1920)]\<rparr>]
        else [])
     @ (if hasAudio m then
          [\<lparr>aspect = AudioAspect,
            recommendation = ''Video has audio track - consider extracting for transcription'',
            parameters = None\<rparr>]
        else [])"

text \<open>
  \<open>estimateFrameTokens\<close>. For \<open>width = 0\<close> the quotient
  \<open>effectiveWidth * height / width\<close> is \<open>0 / 0\<close>, which is \<open>NaN\<close> in JavaScript, and
  \<open>Math.round\<close>, the products and \<open>Math.ceil\<close> pass it on.
\<close>

definition estimateFrameTokens :: "nat \<Rightarrow> nat \<Rightarrow> number" where
  "estimateFrameTokens w h =
     (let effectiveWidth = min (real w) 1920 in
      if w = 0 then NaN
      else
        let effectiveHeight = real_of_int (round (divD (mulD effectiveWidth (real h)) (real w)));
            estimatedKB = divD (mulD (mulD effectiveWidth effectiveHeight) (toDouble 0.1)) 1024
        in Num (of_int \<lceil>mulD (mulD (mulD estimatedKB TOKENS_PER_KB_BASE64) 1000)
                               TOKENS_PER_CHAR\<rceil>))"

text \<open>
  \<open>hints.sort((a, b) => b.priority - a.priority)\<close>: a stable sort by descending priority.
\<close>

definition sortByPriority :: "ContextHint list \<Rightarrow> ContextHint list" where
  "sortByPriority hints = sort_key (\<lambda>h. - priority h) hints"

definition totalFrameTokens :: "FrameReference list \<Rightarrow> number" where
  "totalFrameTokens frs = foldl (\<lambda>sum f. addN sum (estimatedTokens f)) (Num 0) frs"

definition generateContextHints :: "VideoMetadata \<Rightarrow> FrameReference list \<Rightarrow> ContextHint list" where
  "generateContextHints m frs =
     (let total = totalFrameTokens frs in
      sortByPriority
       ((if gtN total (Num WARNING_TOKEN_THRESHOLD) then
           [\<lparr>hintType = Warning,
             message = ''Extracting all '' @ showNat (length frs) @ '' frames would use ~''
               @ showNumber (roundThousands total)
               @ ''K tokens. Consider fetching specific frames instead.'',
             suggestedTool = Some ''get_frame'',
             priority = 10\<rparr>]
         else [])
        @ (if duration m > 300 then
             [\<lparr>hintType = Suggestion,
               message = ''For long videos, fetch frames progressively: start with a few key timestamps, then request more if needed.'',
               suggestedTool = Some ''get_frame'',
               priority = 8\<rparr>]
           else [])
        @ (if hasAudio m then
             [\<lparr>hintType = Info,
               message = ''Audio track available. Use extract_audio to get the audio file for transcription.'',
               suggestedTool = Some ''extract_audio'',
               priority = 5\<rparr>]
           else [])
        @ [\<lparr>hintType = Action,
            message = ''Review the frame timestamps above. Use get_frame to fetch specific frames for visual analysis.'',
            suggestedTool = Some ''get_frame'',
            priority = 3\<rparr>]))"

subsection \<open>The frame references of getVideoOverview\<close>

text \<open>
  \<open>Math.max(1, Math.floor(metadata.duration / frameCount))\<close>. For \<open>frameCount = 0\<close> the
  JavaScript quotient is not finite; the loop below then fails its first test
  \<open>i < frameCount\<close> before the interval is read, and the interval is not part of any
  result, so its value in that case (1 here) is never observed.
\<close>

definition frameInterval :: "real \<Rightarrow> real \<Rightarrow> real" where
  "frameInterval d frameCount = max 1 (of_int \<lfloor>d / frameCount\<rfloor>)"

text \<open>
  The resolution string of a reference:
  \<open>Math.min(width, 1920)\<close>, \<open>x\<close>, \<open>Math.round(Math.min(width, 1920) * height / width)\<close>.
\<close>

definition referenceResolution :: "VideoMetadata \<Rightarrow> string" where
  "referenceResolution m =
     showNat (min (width m) 1920) @ ''x'' @
     showNumber (if width m = 0 then NaN
                 else Num (of_int (round (divD (mulD (real (min (width m) 1920)) (real (height m)))
                                               (real (width m))))))"

definition frameReferenceAt :: "VideoMetadata \<Rightarrow> real \<Rightarrow> nat \<Rightarrow> FrameReference" where
  "frameReferenceAt m interval i =
     (let ts = real i * interval in
      \<lparr>index = i,
       timestamp = ts,
       timestampFormatted = formatTimestamp ts,
       frameResolution = referenceResolution m,
       estimatedTokens = estimateFrameTokens (width m) (height m)\<rparr>)"

text \<open>
  The loop \<open>for (let i = 0; i < frameCount && i * frameInterval < metadata.duration; i++)\<close>,
  pushing one reference per round.
\<close>

function framesLoop ::
  "VideoMetadata \<Rightarrow> real \<Rightarrow> real \<Rightarrow> nat \<Rightarrow> FrameReference list \<Rightarrow> FrameReference list" where
  "framesLoop m frameCount interval i acc =
     (if real i < frameCount \<and> real i * interval < duration m
      then framesLoop m frameCount interval (Suc i) (acc @ [frameReferenceAt m interval i])
      else acc)"
  by pat_completeness auto
termination
proof (relation "measure (\<lambda>(m, frameCount, interval, i, acc). nat \<lceil>frameCount\<rceil> - i)")
  fix m :: VideoMetadata and frameCount interval :: real and i :: nat and acc :: "FrameReference list"
  assume "real i < frameCount \<and> real i * interval < duration m"
  then have "of_int (int i) < frameCount" by simp
  then have "int i < \<lceil>frameCount\<rceil>" by (simp only: less_ceiling_iff)
  then have "i < nat \<lceil>frameCount\<rceil>" by linarith
  then show "((m, frameCount, interval, Suc i, acc @ [frameReferenceAt m interval i]),
              (m, frameCount, interval, i, acc))
             \<in> measure (\<lambda>(m, frameCount, interval, i, acc). nat \<lceil>frameCount\<rceil> - i)"
    by simp
qed simp

declare framesLoop.simps [simp del]

definition planFrames :: "VideoMetadata \<Rightarrow> real \<Rightarrow> FrameReference list" where
  "planFrames m frameCount =
     framesLoop m frameCount (frameInterval (duration m) frameCount) 0 []"

section \<open>External collaborators and processor state\<close>

text \<open>
  What ffprobe reports for a file, as far as \<open>getMetadata\<close> reads it. An absent
  property is \<open>None\<close>; \<open>r_frame_rate\<close> holds the value of the rate expression.
\<close>

record probeStream =
  codec_type :: string
  streamWidth :: "nat option"
  streamHeight :: "nat option"
  r_frame_rate :: "real option"
  codec_name :: "string option"

record probeData =
  streams :: "probeStream list"
  formatDuration :: "real option"
  format_name :: "string option"
  bit_rate :: "real option"

record image =
  imageWidth :: nat
  imageHeight :: nat
  imageBytes :: "nat list"

record encoded =
  encodedBase64 :: string
  encodedWidth :: nat
  encodedHeight :: nat

record audioCommand =
  audioInput :: string
  seekInput :: "real option"
  segmentDuration :: "real option"
  audioCodecName :: string
  audioBitrate :: "string option"
  audioOutput :: string

text \<open>
  The world outside the program: the file system, the clock, ffprobe, ffmpeg and the
  image library. \<open>grabFrame\<close> stands for running ffmpeg with \<open>seekInput(timestamp)\<close>
  and \<open>frames(1)\<close> into a temporary file, reading that file and decoding it; its
  error is the message of whichever step failed. \<open>runAudio\<close> returns the message of
  ffmpeg's error event, if any. Each collaborator is a function of its arguments.
\<close>

record world =
  tempDir :: string
  now :: nat
  basename :: "string \<Rightarrow> string"
  access :: "string \<Rightarrow> bool"
  ffprobe :: "string \<Rightarrow> string + probeData"
  statSize :: "string \<Rightarrow> nat option"
  grabFrame :: "string \<Rightarrow> real \<Rightarrow> string + image"
  resizeImage :: "image \<Rightarrow> real \<Rightarrow> image"
  encodeImage :: "image \<Rightarrow> imageFormat \<Rightarrow> real \<Rightarrow> string + encoded"
  runAudio :: "audioCommand \<Rightarrow> string option"

text \<open>The calls the program makes to the outside, in the order it makes them.\<close>

datatype event =
    Access string
  | Ffprobe string
  | Stat string
  | Mkdir string
  | FfmpegFrame string real string
  | FfmpegAudio audioCommand
  | Remove string
  | ConsoleError string

text \<open>
  The state of a \<open>VideoProcessor\<close>: its private \<open>frameCache\<close>, and the calls made so far.
\<close>

record processor =
  frameCache :: "string \<rightharpoonup> FrameReference list"
  calls :: "event list"

definition emit :: "event \<Rightarrow> processor \<Rightarrow> processor" where
  "emit e s = s\<lparr>calls := calls s @ [e]\<rparr>"

definition joinPath :: "string \<Rightarrow> string \<Rightarrow> string" where
  "joinPath dir name = dir @ ''/'' @ name"

definition formatExtension :: "imageFormat \<Rightarrow> string" where
  "formatExtension f = (case f of Jpeg \<Rightarrow> ''jpeg'' | Png \<Rightarrow> ''png'')"

definition audioFormatName :: "audioFormat \<Rightarrow> string" where
  "audioFormatName f = (case f of Mp3 \<Rightarrow> ''mp3'' | Wav \<Rightarrow> ''wav'')"

fun joinWith :: "string \<Rightarrow> string list \<Rightarrow> string" where
  "joinWith sep [] = []"
| "joinWith sep [x] = x"
| "joinWith sep (x # y # ys) = x @ sep @ joinWith sep (y # ys)"

section \<open>Effectful methods of VideoProcessor\<close>

text \<open>
  A method returns either the message of the error it throws (\<open>Inl\<close>) or its value
  (\<open>Inr\<close>), together with the state it leaves behind.
\<close>

definition ensureTempDir :: "world \<Rightarrow> processor \<Rightarrow> processor" where
  "ensureTempDir w s = emit (Mkdir (tempDir w)) s"

text \<open>
  The object that \<open>getMetadata\<close> resolves with; \<open>x || 0\<close> and \<open>x || 'unknown'\<close> give the
  default for an absent property.
\<close>

definition resolvedMetadata ::
  "probeData \<Rightarrow> probeStream \<Rightarrow> probeStream option \<Rightarrow> nat option \<Rightarrow> VideoMetadata" where
  "resolvedMetadata probed videoStream audioStream bytes =
     \<lparr>duration = (case formatDuration probed of None \<Rightarrow> 0 | Some d \<Rightarrow> d),
      width = (case streamWidth videoStream of None \<Rightarrow> 0 | Some x \<Rightarrow> x),
      height = (case streamHeight videoStream of None \<Rightarrow> 0 | Some x \<Rightarrow> x),
      fps = (case r_frame_rate videoStream of None \<Rightarrow> 0 | Some r \<Rightarrow> r),
      codec = (case codec_name videoStream of None \<Rightarrow> ''unknown'' | Some c \<Rightarrow> c),
      format = (case format_name probed of None \<Rightarrow> ''unknown'' | Some f \<Rightarrow> f),
      bitrate = (case bit_rate probed of None \<Rightarrow> 0 | Some b \<Rightarrow> b),
      hasAudio = (audioStream \<noteq> None),
      audioCodec = (case audioStream of None \<Rightarrow> None | Some a \<Rightarrow> codec_name a),
      fileSize = bytes\<rparr>"

definition getMetadata ::
  "world \<Rightarrow> string \<Rightarrow> processor \<Rightarrow> (string + VideoMetadata) \<times> processor" where
  "getMetadata w path s =
     (let s1 = emit (Ffprobe path) s in
      case ffprobe w path of
        Inl msg \<Rightarrow> (Inl (''Failed to read video metadata: '' @ msg), s1)
      | Inr probed \<Rightarrow>
          (case find (\<lambda>st. codec_type st = ''video'') (streams probed) of
             None \<Rightarrow> (Inl ''No video stream found'', s1)
           | Some videoStream \<Rightarrow>
               let audioStream = find (\<lambda>st. codec_type st = ''audio'') (streams probed);
                   s2 = emit (Stat path) s1
               in (Inr (resolvedMetadata probed videoStream audioStream (statSize w path)), s2)))"

text \<open>What \<open>getMetadataSummary\<close> builds from the metadata it has read.\<close>

definition summaryOf :: "VideoMetadata \<Rightarrow> VideoMetadataSummary" where
  "summaryOf m =
     (let resolutionLabel = getResolutionLabel (width m) (height m);
          orientation = (if width m > height m then ''landscape''
                         else if width m < height m then ''portrait'' else ''square'');
          durationLabel = getDurationLabel (duration m);
          description = joinWith '', ''
            [resolutionLabel, orientation, ''video'', showInt (round (fps m)) @ ''fps'',
             durationLabel, if hasAudio m then ''with audio'' else ''no audio'']
      in \<lparr>durationFormatted = formatTimestamp (duration m),
          resolution = showNat (width m) @ ''x'' @ showNat (height m),
          humanDescription = description,
          analysisHints = generateAnalysisHints m\<rparr>)"

definition getMetadataSummary ::
  "world \<Rightarrow> string \<Rightarrow> processor \<Rightarrow> (string + VideoMetadataSummary) \<times> processor" where
  "getMetadataSummary w path s =
     (case getMetadata w path s of
        (Inl e, s1) \<Rightarrow> (Inl e, s1)
      | (Inr m, s1) \<Rightarrow> (Inr (summaryOf m), s1))"

text \<open>The object that \<open>getVideoOverview\<close> returns.\<close>

definition overviewOf ::
  "world \<Rightarrow> string \<Rightarrow> VideoMetadata \<Rightarrow> VideoMetadataSummary \<Rightarrow> FrameReference list
   \<Rightarrow> ContextHint list \<Rightarrow> VideoOverview" where
  "overviewOf w path m summary planned hints =
     \<lparr>videoPath = path,
      filename = basename w path,
      metadata = summary,
      availableFrames = planned,
      audio = \<lparr>available = hasAudio m,
               durationSeconds = (if hasAudio m then Some (duration m) else None)\<rparr>,
      contextHints = hints\<rparr>"

definition getVideoOverview ::
  "world \<Rightarrow> string \<Rightarrow> real option \<Rightarrow> processor \<Rightarrow> (string + VideoOverview) \<times> processor" where
  "getVideoOverview w path frameCountOption s =
     (let frameCount = (case frameCountOption of None \<Rightarrow> 10 | Some n \<Rightarrow> n) in
      case getMetadata w path s of
        (Inl e, s1) \<Rightarrow> (Inl e, s1)
      | (Inr m, s1) \<Rightarrow>
          (case getMetadataSummary w path s1 of
             (Inl e, s2) \<Rightarrow> (Inl e, s2)
           | (Inr summary, s2) \<Rightarrow>
               let planned = planFrames m frameCount;
                   s3 = s2\<lparr>frameCache := (frameCache s2)(path \<mapsto> planned)\<rparr>;
                   hints = generateContextHints m planned
               in (Inr (overviewOf w path m summary planned hints), s3)))"

record frameOptions =
  maxWidth :: real
  imageFormat :: imageFormat
  quality :: real

definition mimeTypeOf :: "imageFormat \<Rightarrow> string" where
  "mimeTypeOf f = (case f of Jpeg \<Rightarrow> ''image/jpeg'' | Png \<Rightarrow> ''image/png'')"

text \<open>
  The image steps shared by \<open>extractSingleFrame\<close> and \<open>extractFrames\<close>: resize when
  the decoded width exceeds \<open>maxWidth\<close>, then re-encode.
\<close>

definition processImage :: "world \<Rightarrow> image \<Rightarrow> frameOptions \<Rightarrow> string + encoded" where
  "processImage w img opts =
     (let processed = (if imageWidth img \<noteq> 0 \<and> real (imageWidth img) > maxWidth opts
                       then resizeImage w img (maxWidth opts) else img)
      in encodeImage w processed (imageFormat opts) (quality opts))"

text \<open>The object that \<open>extractSingleFrame\<close> returns for an encoded frame.\<close>

definition frameDataOf :: "real \<Rightarrow> frameOptions \<Rightarrow> encoded \<Rightarrow> FrameData" where
  "frameDataOf ts opts enc =
     \<lparr>index = 0,
      timestamp = ts,
      timestampFormatted = formatTimestamp ts,
      frameResolution = showNat (encodedWidth enc) @ ''x'' @ showNat (encodedHeight enc),
      estimatedTokens = Num (estimateBase64Tokens (length (encodedBase64 enc))),
      base64 = encodedBase64 enc,
      mimeType = mimeTypeOf (imageFormat opts)\<rparr>"

definition extractSingleFrame ::
  "world \<Rightarrow> string \<Rightarrow> real \<Rightarrow> frameOptions \<Rightarrow> processor \<Rightarrow> (string + FrameData) \<times> processor" where
  "extractSingleFrame w path ts opts s =
     (let s1 = ensureTempDir w s;
          framePath = joinPath (tempDir w)
                        (''frame-'' @ showNat (now w) @ ''.'' @ formatExtension (imageFormat opts));
          s2 = emit (FfmpegFrame path ts framePath) s1;
          result =
            (case grabFrame w path ts of
               Inl e \<Rightarrow> Inl e
             | Inr img \<Rightarrow>
                 (case processImage w img opts of
                    Inl e \<Rightarrow> Inl e
                  | Inr enc \<Rightarrow> Inr (frameDataOf ts opts enc)))
      in (result, emit (Remove framePath) s2))"

text \<open>
  The loop of \<open>extractFrames\<close>: one ffmpeg run per frame into \<open>frame-i.png\<close>; the
  first failure leaves the loop.
\<close>

function extractLoop ::
  "world \<Rightarrow> string \<Rightarrow> string \<Rightarrow> real \<Rightarrow> frameOptions \<Rightarrow> real \<Rightarrow> nat \<Rightarrow> VideoFrame list
   \<Rightarrow> processor \<Rightarrow> (string + VideoFrame list) \<times> processor" where
  "extractLoop w path frameDir interval opts totalFrames i acc s =
     (if real i < totalFrames then
        (let ts = real i * interval;
             framePath = joinPath frameDir (''frame-'' @ showNat i @ ''.png'');
             s1 = emit (FfmpegFrame path ts framePath) s
         in case grabFrame w path ts of
              Inl e \<Rightarrow> (Inl e, s1)
            | Inr img \<Rightarrow>
                (case processImage w img opts of
                   Inl e \<Rightarrow> (Inl e, s1)
                 | Inr enc \<Rightarrow>
                     extractLoop w path frameDir interval opts totalFrames (Suc i)
                       (acc @ [\<lparr>frameTimestamp = ts,
                                frameBase64 = encodedBase64 enc,
                                frameWidth = encodedWidth enc,
                                frameHeight = encodedHeight enc\<rparr>]) s1))
      else (Inr acc, s))"
  by pat_completeness auto
termination
proof (relation "measure (\<lambda>(w, path, frameDir, interval, opts, totalFrames, i, acc, s).
                            nat \<lceil>totalFrames\<rceil> - i)")
  fix w :: world and path frameDir :: string and interval totalFrames :: real
    and opts :: frameOptions and i :: nat and acc acc' :: "VideoFrame list" and s s' :: processor
  assume "real i < totalFrames"
  then have "of_int (int i) < totalFrames" by simp
  then have "int i < \<lceil>totalFrames\<rceil>" by (simp only: less_ceiling_iff)
  then have "i < nat \<lceil>totalFrames\<rceil>" by linarith
  then show "((w, path, frameDir, interval, opts, totalFrames, Suc i, acc', s'),
              (w, path, frameDir, interval, opts, totalFrames, i, acc, s))
             \<in> measure (\<lambda>(w, path, frameDir, interval, opts, totalFrames, i, acc, s).
                            nat \<lceil>totalFrames\<rceil> - i)"
    by simp
qed simp

declare extractLoop.simps [simp del]

text \<open>
  \<open>extractFrames\<close>. \<open>interval || ...\<close> takes the automatic interval when \<open>interval\<close> is
  absent or zero. With \<open>maxFrames = 0\<close> the automatic interval is not finite in
  JavaScript; \<open>totalFrames\<close> is then zero, negative or \<open>NaN\<close>, as it is at most zero
  here, and the loop makes no round either way.
\<close>

definition extractFrames ::
  "world \<Rightarrow> string \<Rightarrow> real \<Rightarrow> real option \<Rightarrow> frameOptions \<Rightarrow> processor
   \<Rightarrow> (string + VideoFrame list) \<times> processor" where
  "extractFrames w path maxFrames interval opts s =
     (let s1 = ensureTempDir w s;
          frameDir = joinPath (tempDir w) (''frames-'' @ showNat (now w));
          s2 = emit (Mkdir frameDir) s1
      in case getMetadata w path s2 of
           (Inl e, s3) \<Rightarrow> (Inl e, s3)
         | (Inr m, s3) \<Rightarrow>
             let automatic = max 1 (of_int \<lfloor>duration m / maxFrames\<rfloor>);
                 step = (case interval of
                           None \<Rightarrow> automatic
                         | Some iv \<Rightarrow> if iv = 0 then automatic else iv);
                 totalFrames = min maxFrames (of_int \<lfloor>duration m / step\<rfloor>)
             in case extractLoop w path frameDir step opts totalFrames 0 [] s3 of
                  (r, s4) \<Rightarrow> (r, emit (Remove frameDir) s4))"

text \<open>
  The ffmpeg command that \<open>extractAudio\<close> builds: \<open>noVideo\<close>, an input seek when
  \<open>startTime\<close> is given, a duration when both ends are given, and the codec of the format.
\<close>

definition audioCommandOf ::
  "string \<Rightarrow> audioFormat \<Rightarrow> string \<Rightarrow> real option \<Rightarrow> real option \<Rightarrow> string \<Rightarrow> audioCommand" where
  "audioCommandOf path fmt rate startTime endTime audioFile =
     \<lparr>audioInput = path,
      seekInput = startTime,
      segmentDuration = (case endTime of
                           None \<Rightarrow> None
                         | Some e \<Rightarrow> (case startTime of
                                       None \<Rightarrow> None
                                     | Some b \<Rightarrow> Some (e - b))),
      audioCodecName = (if fmt = Mp3 then ''libmp3lame'' else ''pcm_s16le''),
      audioBitrate = (if fmt = Mp3 then Some rate else None),
      audioOutput = audioFile\<rparr>"

definition extractAudio ::
  "world \<Rightarrow> string \<Rightarrow> audioFormat option \<Rightarrow> string option \<Rightarrow> real option \<Rightarrow> real option
   \<Rightarrow> processor \<Rightarrow> (string + string) \<times> processor" where
  "extractAudio w path formatOption bitrateOption startTime endTime s =
     (let fmt = (case formatOption of None \<Rightarrow> Mp3 | Some f \<Rightarrow> f);
          bitrate = (case bitrateOption of None \<Rightarrow> ''128k'' | Some b \<Rightarrow> b);
          s1 = ensureTempDir w s;
          audioFile = joinPath (tempDir w)
                        (''audio-'' @ showNat (now w) @ ''.'' @ audioFormatName fmt);
          command = audioCommandOf path fmt bitrate startTime endTime audioFile;
          s2 = emit (FfmpegAudio command) s1
      in case runAudio w command of
           Some msg \<Rightarrow> (Inl (''Failed to extract audio: '' @ msg), s2)
         | None \<Rightarrow> (Inr audioFile, s2))"

definition analyzeVideo ::
  "world \<Rightarrow> string \<Rightarrow> bool \<Rightarrow> real \<Rightarrow> bool \<Rightarrow> real option \<Rightarrow> processor
   \<Rightarrow> (string + VideoAnalysis) \<times> processor" where
  "analyzeVideo w path shouldExtractFrames maxFrames shouldExtractAudio intervalOption s =
     (case getMetadata w path s of
        (Inl e, s1) \<Rightarrow> (Inl e, s1)
      | (Inr m, s1) \<Rightarrow>
          (case (if shouldExtractFrames
                 then extractFrames w path maxFrames intervalOption
                        \<lparr>maxWidth = 1920, imageFormat = Jpeg, quality = 80\<rparr> s1
                 else (Inr [], s1)) of
             (Inl e, s2) \<Rightarrow> (Inl e, s2)
           | (Inr extracted, s2) \<Rightarrow>
               (if shouldExtractAudio \<and> hasAudio m then
                  (case extractAudio w path None None None None s2 of
                     (Inl e, s3) \<Rightarrow>
                       (Inr \<lparr>analysisMetadata = m, frames = extracted, audioPath = None\<rparr>,
                        emit (ConsoleError (''Failed to extract audio: '' @ e)) s3)
                   | (Inr file, s3) \<Rightarrow>
                       (Inr \<lparr>analysisMetadata = m, frames = extracted, audioPath = Some file\<rparr>, s3))
                else (Inr \<lparr>analysisMetadata = m, frames = extracted, audioPath = None\<rparr>, s2))))"

text \<open>What \<open>estimateTokens\<close> computes from the metadata it has read.\<close>

definition estimateOf :: "VideoMetadata \<Rightarrow> real \<Rightarrow> TokenEstimate" where
  "estimateOf m frameCount =
     (let perFrameTokens = estimateFrameTokens (width m) (height m);
          allFrames = mulN (Num frameCount) perFrameTokens;
          sum = addN (Num BASE_METADATA_TOKENS) allFrames
      in \<lparr>metadataTokens = BASE_METADATA_TOKENS,
          perFrame = perFrameTokens,
          total = sum,
          warning = (if gtN sum (Num WARNING_TOKEN_THRESHOLD)
                     then Some (''Estimated '' @ showNumber (roundThousands sum)
                                @ ''K tokens exceeds recommended limit. Consider reducing frame count or fetching frames progressively.'')
                     else None)\<rparr>)"

definition estimateTokens ::
  "world \<Rightarrow> string \<Rightarrow> real option \<Rightarrow> processor \<Rightarrow> (string + TokenEstimate) \<times> processor" where
  "estimateTokens w path frameCountOption s =
     (let frameCount = (case frameCountOption of None \<Rightarrow> 10 | Some n \<Rightarrow> n) in
      case getMetadata w path s of
        (Inl e, s1) \<Rightarrow> (Inl e, s1)
      | (Inr m, s1) \<Rightarrow> (Inr (estimateOf m frameCount), s1))"

section \<open>The tool handlers\<close>

text \<open>
  A handler answers with a list of content items. A text item is the
  \<open>JSON.stringify\<close> of an object literal; the model keeps the object. A property
  whose value is \<open>undefined\<close> is left out by \<open>JSON.stringify\<close>, and so it is here.
\<close>

datatype json =
    JNull
  | JBool bool
  | JNumber number
  | JString string
  | JArray "json list"
  | JObject "(string \<times> json) list"

datatype contentItem = TextContent json | ImageContent string string

record toolResult =
  content :: "contentItem list"
  isError :: bool

datatype request =
    GetVideoOverview string "real option"
  | GetVideoMetadata string
  | EstimateAnalysisCost string "real option"
  | GetFrame string real "real option" "imageFormat option" "real option"
  | GetFramesBatch string "real list" "real option" "imageFormat option"
  | ExtractAudio string "audioFormat option" "string option" "real option" "real option"
  | AnalyzeVideoFull string "real option" "bool option" "real option"
  | UnknownTool string

definition toolNames :: "string list" where
  "toolNames = [''get_video_overview'', ''get_video_metadata'', ''estimate_analysis_cost'',
                ''get_frame'', ''get_frames_batch'', ''extract_audio'', ''analyze_video_full'']"

definition optionalField :: "string \<Rightarrow> json option \<Rightarrow> (string \<times> json) list" where
  "optionalField name v = (case v of None \<Rightarrow> [] | Some j \<Rightarrow> [(name, j)])"

definition real_json :: "real \<Rightarrow> json" where
  "real_json x = JNumber (Num x)"

definition aspectName :: "aspect \<Rightarrow> string" where
  "aspectName a = (case a of DurationAspect \<Rightarrow> ''duration'' | ResolutionAspect \<Rightarrow> ''resolution''
                   | AudioAspect \<Rightarrow> ''audio'' | FormatAspect \<Rightarrow> ''format'')"

definition hintTypeName :: "hintType \<Rightarrow> string" where
  "hintTypeName t = (case t of Action \<Rightarrow> ''action'' | Warning \<Rightarrow> ''warning''
                     | Info \<Rightarrow> ''info'' | Suggestion \<Rightarrow> ''suggestion'')"

definition analysisHintJson :: "AnalysisHint \<Rightarrow> json" where
  "analysisHintJson h =
     JObject ([(''aspect'', JString (aspectName (aspect h))),
               (''recommendation'', JString (recommendation h))]
              @ optionalField ''parameters''
                  (map_option (\<lambda>ps. JObject (map (\<lambda>(k, v). (k, real_json v)) ps)) (parameters h)))"

definition summaryJson :: "VideoMetadataSummary \<Rightarrow> json" where
  "summaryJson sm =
     JObject [(''durationFormatted'', JString (durationFormatted sm)),
              (''resolution'', JString (resolution sm)),
              (''humanDescription'', JString (humanDescription sm)),
              (''analysisHints'', JArray (map analysisHintJson (analysisHints sm)))]"

definition frameReferenceJson :: "FrameReference \<Rightarrow> json" where
  "frameReferenceJson r =
     JObject [(''index'', real_json (real (index r))),
              (''timestamp'', real_json (timestamp r)),
              (''timestampFormatted'', JString (timestampFormatted r)),
              (''resolution'', JString (frameResolution r)),
              (''estimatedTokens'', JNumber (estimatedTokens r))]"

definition contextHintJson :: "ContextHint \<Rightarrow> json" where
  "contextHintJson h =
     JObject ([(''type'', JString (hintTypeName (hintType h))),
               (''message'', JString (message h))]
              @ optionalField ''suggestedTool'' (map_option JString (suggestedTool h))
              @ [(''priority'', real_json (of_int (priority h)))])"

definition audioJson :: "audioStatus \<Rightarrow> json" where
  "audioJson a =
     JObject ([(''available'', JBool (available a))]
              @ optionalField ''durationSeconds'' (map_option real_json (durationSeconds a)))"

definition textResult :: "json \<Rightarrow> toolResult" where
  "textResult j = \<lparr>content = [TextContent j], isError = False\<rparr>"

definition fileNotFound :: "string \<Rightarrow> (string \<times> json) list \<Rightarrow> toolResult" where
  "fileNotFound path extra =
     textResult (JObject ([(''success'', JBool False),
                           (''error'', JString (''File not found: '' @ path))] @ extra))"

definition kbps :: "real \<Rightarrow> string" where
  "kbps b = showInt (round (b / 1000)) @ '' kbps''"

subsection \<open>The answers\<close>

definition overviewResult :: "VideoOverview \<Rightarrow> toolResult" where
  "overviewResult overview =
     textResult (JObject
       [(''success'', JBool True),
        (''overview'', JObject
           [(''filename'', JString (filename overview)),
            (''metadata'', summaryJson (metadata overview)),
            (''audio'', audioJson (audio overview)),
            (''availableFrames'', JArray (map frameReferenceJson (availableFrames overview)))]),
        (''contextHints'', JArray (map contextHintJson (contextHints overview))),
        (''nextSteps'', JArray
           [JString ''Use get_frame with a specific timestamp to fetch frame data for visual analysis'',
            JString ''Use extract_audio if you need to transcribe spoken content''])])"

definition metadataResult :: "world \<Rightarrow> string \<Rightarrow> VideoMetadata \<Rightarrow> VideoMetadataSummary \<Rightarrow> toolResult" where
  "metadataResult w path m summary =
     textResult (JObject
       [(''success'', JBool True),
        (''filename'', JString (basename w path)),
        (''summary'', JString (humanDescription summary)),
        (''metadata'', JObject
           [(''duration'', JString (durationFormatted summary)),
            (''durationSeconds'', real_json (duration m)),
            (''resolution'', JString (resolution summary)),
            (''fps'', real_json (fps m)),
            (''codec'', JString (codec m)),
            (''format'', JString (format m)),
            (''bitrate'', JString (kbps (bitrate m))),
            (''hasAudio'', JBool (hasAudio m))]),
        (''analysisHints'', JArray (map analysisHintJson (analysisHints summary)))])"

definition estimateResult :: "real \<Rightarrow> TokenEstimate \<Rightarrow> toolResult" where
  "estimateResult frameCount estimate =
     textResult (JObject
       [(''success'', JBool True),
        (''estimate'', JObject
           ([(''metadataTokens'', real_json (metadataTokens estimate)),
             (''tokensPerFrame'', JNumber (perFrame estimate)),
             (''totalForFrames'', JNumber (mulN (Num frameCount) (perFrame estimate))),
             (''totalEstimated'', JNumber (total estimate))]
            @ optionalField ''warning'' (map_option JString (warning estimate)))),
        (''recommendation'', JString
           (if warning estimate \<noteq> None
            then ''Consider using progressive frame fetching (get_frame) instead of full analysis''
            else ''Context budget is manageable for this analysis''))])"

definition frameImage :: "FrameData \<Rightarrow> contentItem" where
  "frameImage f = ImageContent (base64 f) (mimeType f)"

definition frameResult :: "FrameData \<Rightarrow> toolResult" where
  "frameResult frame =
     \<lparr>content =
        [TextContent (JObject
           [(''success'', JBool True),
            (''frame'', JObject
               [(''timestamp'', real_json (timestamp frame)),
                (''timestampFormatted'', JString (timestampFormatted frame)),
                (''resolution'', JString (frameResolution frame)),
                (''mimeType'', JString (mimeType frame)),
                (''estimatedTokens'', JNumber (estimatedTokens frame))])]),
         frameImage frame],
      isError = False\<rparr>"

definition batchFrameJson :: "FrameData \<Rightarrow> json" where
  "batchFrameJson f =
     JObject [(''timestamp'', real_json (timestamp f)),
              (''timestampFormatted'', JString (timestampFormatted f)),
              (''resolution'', JString (frameResolution f)),
              (''estimatedTokens'', JNumber (estimatedTokens f))]"

definition batchResult :: "real list \<Rightarrow> FrameData list \<Rightarrow> toolResult" where
  "batchResult timestamps extracted =
     \<lparr>content =
        TextContent (JObject
          [(''success'', JBool True),
           (''framesExtracted'', real_json (real (length extracted))),
           (''totalTimestampsRequested'', real_json (real (length timestamps))),
           (''limited'', JBool (length timestamps > 5)),
           (''frames'', JArray (map batchFrameJson extracted))])
        # map frameImage extracted,
      isError = False\<rparr>"

definition noAudioResult :: toolResult where
  "noAudioResult =
     textResult (JObject
       [(''success'', JBool False),
        (''error'', JString ''Video does not have an audio track'')])"

definition audioResult ::
  "audioFormat \<Rightarrow> real option \<Rightarrow> real option \<Rightarrow> VideoMetadata \<Rightarrow> string \<Rightarrow> toolResult" where
  "audioResult fmt startTime endTime m file =
     textResult (JObject
       [(''success'', JBool True),
        (''audioPath'', JString file),
        (''format'', JString (audioFormatName fmt)),
        (''segment'',
           (case startTime of
              None \<Rightarrow> JString ''full''
            | Some b \<Rightarrow> JObject
                [(''startTime'', real_json b),
                 (''endTime'', real_json
                    (case endTime of
                       None \<Rightarrow> duration m
                     | Some e \<Rightarrow> if e = 0 then duration m else e))])),
        (''nextStep'', JString ''Use this audio path with a transcription service to get the spoken content.'')])"

definition analysisResult ::
  "world \<Rightarrow> string \<Rightarrow> TokenEstimate \<Rightarrow> VideoAnalysis \<Rightarrow> VideoMetadataSummary \<Rightarrow> toolResult" where
  "analysisResult w path estimate analysis summary =
     \<lparr>content =
        TextContent (JObject
          ([(''success'', JBool True)]
           @ optionalField ''contextWarning'' (map_option JString (warning estimate))
           @ [(''video'', JObject
                 [(''filename'', JString (basename w path)),
                  (''summary'', JString (humanDescription summary)),
                  (''duration'', JString (durationFormatted summary)),
                  (''resolution'', JString (resolution summary))]),
              (''metadata'', JObject
                 [(''durationSeconds'', real_json (duration (analysisMetadata analysis))),
                  (''fps'', real_json (fps (analysisMetadata analysis))),
                  (''codec'', JString (codec (analysisMetadata analysis))),
                  (''format'', JString (format (analysisMetadata analysis))),
                  (''bitrate'', JString (kbps (bitrate (analysisMetadata analysis)))),
                  (''hasAudio'', JBool (hasAudio (analysisMetadata analysis)))]),
              (''framesExtracted'', real_json (real (length (frames analysis)))),
              (''frames'', JArray (map (\<lambda>(i, f). JObject
                 [(''index'', real_json (real (i + 1))),
                  (''timestamp'', real_json (frameTimestamp f)),
                  (''timestampFormatted'', JString (formatTimestamp (frameTimestamp f))),
                  (''resolution'', JString (showNat (frameWidth f) @ ''x'' @ showNat (frameHeight f)))])
                 (enumerate 0 (frames analysis)))),
              (''audioExtracted'', JBool (audioPath analysis \<noteq> None))]
           @ optionalField ''audioPath'' (map_option JString (audioPath analysis))))
        # map (\<lambda>f. ImageContent (frameBase64 f) ''image/jpeg'') (frames analysis),
      isError = False\<rparr>"

definition unknownToolResult :: "string \<Rightarrow> toolResult" where
  "unknownToolResult name =
     textResult (JObject
       [(''success'', JBool False),
        (''error'', JString (''Unknown tool: '' @ name)),
        (''availableTools'', JArray (map JString toolNames))])"

definition errorResult :: "string \<Rightarrow> toolResult" where
  "errorResult msg =
     \<lparr>content = [TextContent (JObject
        [(''success'', JBool False),
         (''error'', JString msg),
         (''hint'', JString ''Check that the video file exists and is in a supported format.'')])],
      isError = True\<rparr>"

subsection \<open>The cases of the handler\<close>

definition handleGetVideoOverview ::
  "world \<Rightarrow> string \<Rightarrow> real option \<Rightarrow> processor \<Rightarrow> (string + toolResult) \<times> processor" where
  "handleGetVideoOverview w path frameCountOption s =
     (let frameCount = (case frameCountOption of None \<Rightarrow> 10 | Some n \<Rightarrow> n);
          s1 = emit (Access path) s
      in if \<not> access w path then
           (Inr (fileNotFound path
                   [(''hint'', JString ''Please provide an absolute path to an existing video file.'')]), s1)
         else
           (case getVideoOverview w path (Some frameCount) s1 of
              (Inl e, s2) \<Rightarrow> (Inl e, s2)
            | (Inr overview, s2) \<Rightarrow> (Inr (overviewResult overview), s2)))"

definition handleGetVideoMetadata ::
  "world \<Rightarrow> string \<Rightarrow> processor \<Rightarrow> (string + toolResult) \<times> processor" where
  "handleGetVideoMetadata w path s =
     (let s1 = emit (Access path) s
      in if \<not> access w path then (Inr (fileNotFound path []), s1)
         else
           (case getMetadata w path s1 of
              (Inl e, s2) \<Rightarrow> (Inl e, s2)
            | (Inr m, s2) \<Rightarrow>
                (case getMetadataSummary w path s2 of
                   (Inl e, s3) \<Rightarrow> (Inl e, s3)
                 | (Inr summary, s3) \<Rightarrow> (Inr (metadataResult w path m summary), s3))))"

definition handleEstimateAnalysisCost ::
  "world \<Rightarrow> string \<Rightarrow> real option \<Rightarrow> processor \<Rightarrow> (string + toolResult) \<times> processor" where
  "handleEstimateAnalysisCost w path frameCountOption s =
     (let frameCount = (case frameCountOption of None \<Rightarrow> 10 | Some n \<Rightarrow> n);
          s1 = emit (Access path) s
      in if \<not> access w path then (Inr (fileNotFound path []), s1)
         else
           (case estimateTokens w path (Some frameCount) s1 of
              (Inl e, s2) \<Rightarrow> (Inl e, s2)
            | (Inr estimate, s2) \<Rightarrow> (Inr (estimateResult frameCount estimate), s2)))"

definition handleGetFrame ::
  "world \<Rightarrow> string \<Rightarrow> real \<Rightarrow> real option \<Rightarrow> imageFormat option \<Rightarrow> real option
   \<Rightarrow> processor \<Rightarrow> (string + toolResult) \<times> processor" where
  "handleGetFrame w path ts maxWidthOption formatOption qualityOption s =
     (let opts = \<lparr>maxWidth = (case maxWidthOption of None \<Rightarrow> 1920 | Some x \<Rightarrow> x),
                  imageFormat = (case formatOption of None \<Rightarrow> Jpeg | Some f \<Rightarrow> f),
                  quality = (case qualityOption of None \<Rightarrow> 80 | Some q \<Rightarrow> q)\<rparr>;
          s1 = emit (Access path) s
      in if \<not> access w path then (Inr (fileNotFound path []), s1)
         else
           (case extractSingleFrame w path ts opts s1 of
              (Inl e, s2) \<Rightarrow> (Inl e, s2)
            | (Inr frame, s2) \<Rightarrow> (Inr (frameResult frame), s2)))"

text \<open>
  \<open>Promise.all(limitedTimestamps.map(ts => processor.extractSingleFrame(...)))\<close>: every
  extraction is started, whatever becomes of the others, and the results are collected
  in the order of the timestamps. The extractions run concurrently in the program; the
  model runs them in list order, and where several fail it reports the first in list
  order.
\<close>

fun extractEach ::
  "world \<Rightarrow> string \<Rightarrow> real list \<Rightarrow> frameOptions \<Rightarrow> processor
   \<Rightarrow> (string + FrameData) list \<times> processor" where
  "extractEach w path [] opts s = ([], s)"
| "extractEach w path (ts # rest) opts s =
     (case extractSingleFrame w path ts opts s of
        (r, s1) \<Rightarrow> (case extractEach w path rest opts s1 of (rs, s2) \<Rightarrow> (r # rs, s2)))"

fun promiseAll :: "(string + 'a) list \<Rightarrow> string + 'a list" where
  "promiseAll [] = Inr []"
| "promiseAll (Inl e # rs) = Inl e"
| "promiseAll (Inr x # rs) = (case promiseAll rs of Inl e \<Rightarrow> Inl e | Inr xs \<Rightarrow> Inr (x # xs))"

definition handleGetFramesBatch ::
  "world \<Rightarrow> string \<Rightarrow> real list \<Rightarrow> real option \<Rightarrow> imageFormat option
   \<Rightarrow> processor \<Rightarrow> (string + toolResult) \<times> processor" where
  "handleGetFramesBatch w path timestamps maxWidthOption formatOption s =
     (let opts = \<lparr>maxWidth = (case maxWidthOption of None \<Rightarrow> 1920 | Some x \<Rightarrow> x),
                  imageFormat = (case formatOption of None \<Rightarrow> Jpeg | Some f \<Rightarrow> f),
                  quality = 80\<rparr>;
          s1 = emit (Access path) s
      in if \<not> access w path then (Inr (fileNotFound path []), s1)
         else
           (let limitedTimestamps = take 5 timestamps;
                s2 = (if length timestamps > 5
                      then emit (ConsoleError (''Warning: Limited from '' @ showNat (length timestamps)
                                               @ '' to 5 frames for context management'')) s1
                      else s1)
            in case extractEach w path limitedTimestamps opts s2 of
                 (results, s3) \<Rightarrow>
                   (case promiseAll results of
                      Inl e \<Rightarrow> (Inl e, s3)
                    | Inr extracted \<Rightarrow> (Inr (batchResult timestamps extracted), s3))))"

definition handleExtractAudio ::
  "world \<Rightarrow> string \<Rightarrow> audioFormat option \<Rightarrow> string option \<Rightarrow> real option \<Rightarrow> real option
   \<Rightarrow> processor \<Rightarrow> (string + toolResult) \<times> processor" where
  "handleExtractAudio w path formatOption bitrateOption startTime endTime s =
     (let fmt = (case formatOption of None \<Rightarrow> Mp3 | Some f \<Rightarrow> f);
          bitrate = (case bitrateOption of None \<Rightarrow> ''128k'' | Some b \<Rightarrow> b);
          s1 = emit (Access path) s
      in if \<not> access w path then (Inr (fileNotFound path []), s1)
         else
           (case getMetadata w path s1 of
              (Inl e, s2) \<Rightarrow> (Inl e, s2)
            | (Inr m, s2) \<Rightarrow>
                if \<not> hasAudio m then (Inr noAudioResult, s2)
                else
                  (case extractAudio w path (Some fmt) (Some bitrate) startTime endTime s2 of
                     (Inl e, s3) \<Rightarrow> (Inl e, s3)
                   | (Inr file, s3) \<Rightarrow> (Inr (audioResult fmt startTime endTime m file), s3))))"

definition handleAnalyzeVideoFull ::
  "world \<Rightarrow> string \<Rightarrow> real option \<Rightarrow> bool option \<Rightarrow> real option
   \<Rightarrow> processor \<Rightarrow> (string + toolResult) \<times> processor" where
  "handleAnalyzeVideoFull w path maxFramesOption extractAudioOption intervalOption s =
     (let maxFrames = (case maxFramesOption of None \<Rightarrow> 8 | Some n \<Rightarrow> n);
          wantAudio = (case extractAudioOption of None \<Rightarrow> True | Some b \<Rightarrow> b);
          s1 = emit (Access path) s
      in if \<not> access w path then (Inr (fileNotFound path []), s1)
         else
           (case estimateTokens w path (Some maxFrames) s1 of
              (Inl e, s2) \<Rightarrow> (Inl e, s2)
            | (Inr estimate, s2) \<Rightarrow>
                (case analyzeVideo w path True (min maxFrames 15) wantAudio intervalOption s2 of
                   (Inl e, s3) \<Rightarrow> (Inl e, s3)
                 | (Inr analysis, s3) \<Rightarrow>
                     (case getMetadataSummary w path s3 of
                        (Inl e, s4) \<Rightarrow> (Inl e, s4)
                      | (Inr summary, s4) \<Rightarrow>
                          (Inr (analysisResult w path estimate analysis summary), s4)))))"

text \<open>The \<open>switch\<close> over the tool name, inside the handler's \<open>try\<close>.\<close>

fun dispatch :: "world \<Rightarrow> request \<Rightarrow> processor \<Rightarrow> (string + toolResult) \<times> processor" where
  "dispatch w (GetVideoOverview path frameCount) s = handleGetVideoOverview w path frameCount s"
| "dispatch w (GetVideoMetadata path) s = handleGetVideoMetadata w path s"
| "dispatch w (EstimateAnalysisCost path frameCount) s = handleEstimateAnalysisCost w path frameCount s"
| "dispatch w (GetFrame path ts mw fmt q) s = handleGetFrame w path ts mw fmt q s"
| "dispatch w (GetFramesBatch path tss mw fmt) s = handleGetFramesBatch w path tss mw fmt s"
| "dispatch w (ExtractAudio path fmt br st en) s = handleExtractAudio w path fmt br st en s"
| "dispatch w (AnalyzeVideoFull path mf ea iv) s = handleAnalyzeVideoFull w path mf ea iv s"
| "dispatch w (UnknownTool name) s = (Inr (unknownToolResult name), s)"

text \<open>The handler: the \<open>catch\<close> turns a thrown error into an error result.\<close>

definition callTool :: "world \<Rightarrow> request \<Rightarrow> processor \<Rightarrow> toolResult \<times> processor" where
  "callTool w req s =
     (case dispatch w req s of
        (Inl msg, s1) \<Rightarrow> (errorResult msg, s1)
      | (Inr r, s1) \<Rightarrow> (r, s1))"

section \<open>Observations on runs\<close>

text \<open>The state of a processor right after its constructor.\<close>

definition freshProcessor :: processor where
  "freshProcessor = \<lparr>frameCache = Map.empty, calls = []\<rparr>"

text \<open>Calls that decode a frame or extract audio.\<close>

fun isExtraction :: "event \<Rightarrow> bool" where
  "isExtraction (FfmpegFrame p t out) = True"
| "isExtraction (FfmpegAudio c) = True"
| "isExtraction e = False"

definition extractions :: "processor \<Rightarrow> event list" where
  "extractions s = filter isExtraction (calls s)"

text \<open>Calls that only look at a file: its existence, its probe data, its size.\<close>

fun isProbe :: "event \<Rightarrow> bool" where
  "isProbe (Access p) = True"
| "isProbe (Ffprobe p) = True"
| "isProbe (Stat p) = True"
| "isProbe e = False"

definition otherCalls :: "processor \<Rightarrow> event list" where
  "otherCalls s = filter (\<lambda>e. \<not> isProbe e) (calls s)"

text \<open>The (input, timestamp) pairs of the frames that ffmpeg was asked to decode.\<close>

fun grabOf :: "event \<Rightarrow> (string \<times> real) list" where
  "grabOf (FfmpegFrame p t out) = [(p, t)]"
| "grabOf e = []"

definition grabs :: "processor \<Rightarrow> (string \<times> real) list" where
  "grabs s = concat (map grabOf (calls s))"

text \<open>Reading a text answer: the first content item, and a property of an object.\<close>

fun answerOf :: "toolResult \<Rightarrow> json" where
  "answerOf r = (case content r of TextContent j # rest \<Rightarrow> j | _ \<Rightarrow> JNull)"

fun property :: "string \<Rightarrow> json \<Rightarrow> json option" where
  "property name (JObject kvs) = map_of kvs name"
| "property name j = None"

fun images :: "toolResult \<Rightarrow> contentItem list" where
  "images r = filter (\<lambda>c. case c of ImageContent d m \<Rightarrow> True | TextContent j \<Rightarrow> False) (content r)"

text \<open>
  A sample environment: one silent Full HD video of 100 seconds at \<open>/v.mp4\<close>, and a
  decoder that delivers a frame for every position before the end of the video
  (seeking before the start lands on the first frame).
\<close>

definition sampleProbe :: probeData where
  "sampleProbe =
     \<lparr>streams = [\<lparr>codec_type = ''video'', streamWidth = Some 1920, streamHeight = Some 1080,
                  r_frame_rate = Some 30, codec_name = Some ''h264''\<rparr>],
      formatDuration = Some 100,
      format_name = Some ''mp4'',
      bit_rate = Some 1000000\<rparr>"

definition sampleWorld :: world where
  "sampleWorld =
     \<lparr>tempDir = ''/tmp/mcp-video-reader'',
      now = 0,
      basename = (\<lambda>p. drop 1 p),
      access = (\<lambda>p. p = ''/v.mp4''),
      ffprobe = (\<lambda>p. if p = ''/v.mp4'' then Inr sampleProbe else Inl ''No such file or directory''),
      statSize = (\<lambda>p. Some 1000),
      grabFrame = (\<lambda>p t. if t < 100
                           then Inr \<lparr>imageWidth = 1920, imageHeight = 1080, imageBytes = []\<rparr>
                           else Inl ''Output file is empty''),
      resizeImage = (\<lambda>img mw. img),
      encodeImage = (\<lambda>img f q. Inr \<lparr>encodedBase64 = ''AAAA'', encodedWidth = imageWidth img,
                                      encodedHeight = imageHeight img\<rparr>),
      runAudio = (\<lambda>c. None)\<rparr>"

definition sampleMetadata :: "real \<Rightarrow> VideoMetadata" where
  "sampleMetadata d =
     \<lparr>duration = d, width = 1920, height = 1080, fps = 30, codec = ''h264'', format = ''mp4'',
      bitrate = 1000000, hasAudio = False, audioCodec = None, fileSize = Some 1000\<rparr>"

definition sampleReference :: "nat \<Rightarrow> number \<Rightarrow> FrameReference" where
  "sampleReference i tokens =
     \<lparr>index = i, timestamp = real i, timestampFormatted = ''0:00'',
      frameResolution = ''1920x1080'', estimatedTokens = tokens\<rparr>"

definition defaultFrameOptions :: frameOptions where
  "defaultFrameOptions = \<lparr>maxWidth = 1920, imageFormat = Jpeg, quality = 80\<rparr>"

section \<open>Rounding to doubles\<close>

lemma exponentUp_bounds:
  "1 \<le> x \<Longrightarrow> 2 ^ exponentUp x \<le> x \<and> x < 2 * 2 ^ exponentUp x"
proof (induction x rule: exponentUp.induct)
  case (1 x)
  show ?case
  proof (cases "x < 2")
    case True
    then show ?thesis using "1.prems" by (simp add: exponentUp.simps [of x])
  next
    case False
    then have "1 \<le> x / 2" by simp
    from "1.IH" [OF False this] show ?thesis
      using False by (simp add: exponentUp.simps [of x])
  qed
qed

lemma exponentDown_bounds:
  "0 < x \<Longrightarrow> x < 1 \<Longrightarrow> 1 \<le> x * 2 ^ exponentDown x \<and> x * 2 ^ exponentDown x < 2"
proof (induction x rule: exponentDown.induct)
  case (1 x)
  have unfold: "exponentDown x = Suc (exponentDown (2 * x))"
    using "1.prems" by (simp add: exponentDown.simps [of x])
  show ?case
  proof (cases "2 * x < 1")
    case True
    have "\<not> (x \<le> 0 \<or> 1 \<le> x)" using "1.prems" by simp
    from "1.IH" [OF this _ True] "1.prems" show ?thesis
      by (simp add: unfold mult.assoc)
  next
    case False
    then have "exponentDown (2 * x) = 0"
      by (simp add: exponentDown.simps [of "2 * x"])
    then show ?thesis using False "1.prems" by (simp add: unfold)
  qed
qed

lemma exponent_bounds:
  assumes "0 < x"
  shows "2 powi exponent x \<le> x \<and> x < 2 powi (exponent x + 1)"
proof (cases "1 \<le> x")
  case True
  then have e: "exponent x = int (exponentUp x)" by (simp add: exponent_def)
  have "(2::real) powi (int (exponentUp x) + 1) = 2 * 2 ^ exponentUp x"
    by (simp add: power_int_add)
  then show ?thesis using exponentUp_bounds [OF True] by (simp add: e)
next
  case False
  then have small: "x < 1" by simp
  let ?k = "exponentDown x"
  have e: "exponent x = - int ?k" using False by (simp add: exponent_def)
  have p: "(2::real) powi (- int ?k) = 1 / 2 ^ ?k"
    by (simp add: power_int_minus_divide)
  have q: "(2::real) powi (1 - int ?k) = 2 / 2 ^ ?k"
    using power_int_diff [of "2::real" 1 "int ?k"] by simp
  from exponentDown_bounds [OF assms small]
  have "1 / 2 ^ ?k \<le> x" and "x < 2 / 2 ^ ?k"
    by (simp_all add: field_simps)
  then show ?thesis by (simp add: e p q)
qed

lemma exponent_mono:
  assumes "0 < x" and "x \<le> y"
  shows "exponent x \<le> exponent y"
proof (rule ccontr)
  assume "\<not> exponent x \<le> exponent y"
  then have "exponent y + 1 \<le> exponent x" by simp
  then have "(2::real) powi (exponent y + 1) \<le> 2 powi exponent x"
    by (intro power_int_increasing) simp_all
  moreover have "y < 2 powi (exponent y + 1)"
    using exponent_bounds [of y] assms by simp
  moreover have "2 powi exponent x \<le> x"
    using exponent_bounds [OF assms(1)] by simp
  ultimately show False using assms(2) by linarith
qed

lemma roundEven_cases: "roundEven y = \<lfloor>y\<rfloor> \<or> roundEven y = \<lfloor>y\<rfloor> + 1"
  by (simp add: roundEven_def Let_def)

lemma roundEven_of_int: "roundEven (of_int k) = k"
  by (simp add: roundEven_def)

lemma roundEven_mono:
  assumes "x \<le> y"
  shows "roundEven x \<le> roundEven y"
proof (cases "\<lfloor>x\<rfloor> = \<lfloor>y\<rfloor>")
  case True
  then have "x - of_int \<lfloor>x\<rfloor> \<le> y - of_int \<lfloor>y\<rfloor>" using assms by simp
  then show ?thesis using True
    by (auto simp: roundEven_def Let_def)
next
  case False
  then have "\<lfloor>x\<rfloor> + 1 \<le> \<lfloor>y\<rfloor>" using floor_mono [OF assms] by simp
  moreover have "roundEven x \<le> \<lfloor>x\<rfloor> + 1" using roundEven_cases [of x] by auto
  moreover have "\<lfloor>y\<rfloor> \<le> roundEven y" using roundEven_cases [of y] by auto
  ultimately show ?thesis by simp
qed

lemma toDouble_positive:
  "0 < x \<Longrightarrow>
   toDouble x = of_int (roundEven (x / 2 powi (exponent x - 52))) * 2 powi (exponent x - 52)"
  by (simp add: toDouble_def Let_def)

lemma significand_bounds:
  assumes "0 < x"
  shows "2 ^ 52 \<le> x / 2 powi (exponent x - 52) \<and> x / 2 powi (exponent x - 52) < 2 ^ 53"
proof -
  let ?u = "(2::real) powi (exponent x - 52)"
  have u: "0 < ?u" by simp
  have lo: "2 ^ 52 * ?u = 2 powi exponent x"
    by (simp add: power_int_diff)
  have hi: "2 ^ 53 * ?u = 2 powi (exponent x + 1)"
    by (simp add: power_int_diff power_int_add)
  from exponent_bounds [OF assms] have "2 ^ 52 * ?u \<le> x" and "x < 2 ^ 53 * ?u"
    by (simp_all only: lo hi)
  then show ?thesis using u by (simp add: field_simps)
qed

lemma toDouble_in_binade:
  assumes "0 < x"
  shows "2 powi exponent x \<le> toDouble x \<and> toDouble x \<le> 2 powi (exponent x + 1)"
proof -
  let ?u = "(2::real) powi (exponent x - 52)"
  let ?m = "x / ?u"
  have u: "0 \<le> ?u" by simp
  have "roundEven (of_int (2 ^ 52)) \<le> roundEven ?m"
    using significand_bounds [OF assms] by (intro roundEven_mono) simp
  then have "2 ^ 52 \<le> roundEven ?m" by (simp only: roundEven_of_int)
  then have lo: "(2::real) ^ 52 \<le> of_int (roundEven ?m)"
    by (metis of_int_le_iff of_int_numeral of_int_power)
  have "roundEven ?m \<le> roundEven (of_int (2 ^ 53))"
    using significand_bounds [OF assms] by (intro roundEven_mono) simp
  then have "roundEven ?m \<le> 2 ^ 53" by (simp only: roundEven_of_int)
  then have hi: "of_int (roundEven ?m) \<le> (2::real) ^ 53"
    by (metis of_int_le_iff of_int_numeral of_int_power)
  have "2 powi exponent x = 2 ^ 52 * ?u"
    by (simp add: power_int_diff)
  also have "\<dots> \<le> of_int (roundEven ?m) * ?u"
    using lo u by (rule mult_right_mono)
  finally have low: "2 powi exponent x \<le> of_int (roundEven ?m) * ?u" .
  have "of_int (roundEven ?m) * ?u \<le> 2 ^ 53 * ?u"
    using hi u by (rule mult_right_mono)
  also have "\<dots> = 2 powi (exponent x + 1)"
    by (simp add: power_int_diff power_int_add)
  finally have high: "of_int (roundEven ?m) * ?u \<le> 2 powi (exponent x + 1)" .
  show ?thesis
    unfolding toDouble_positive [OF assms] using low high by (rule conjI)
qed

lemma toDouble_nonneg: "0 \<le> x \<Longrightarrow> 0 \<le> toDouble x"
proof (cases "x = 0")
  case True
  then show ?thesis by (simp add: toDouble_def)
next
  case False
  assume "0 \<le> x"
  with False have "0 < x" by simp
  from toDouble_in_binade [OF this] have "2 powi exponent x \<le> toDouble x" by simp
  moreover have "(0::real) < 2 powi exponent x" by simp
  ultimately show ?thesis by linarith
qed

lemma toDouble_mono:
  assumes "0 \<le> x" and "x \<le> y"
  shows "toDouble x \<le> toDouble y"
proof (cases "x = 0")
  case True
  then show ?thesis using toDouble_nonneg [of y] assms by (simp add: toDouble_def)
next
  case False
  with assms have x: "0 < x" and y: "0 < y" by simp_all
  show ?thesis
  proof (cases "exponent x = exponent y")
    case True
    let ?u = "(2::real) powi (exponent y - 52)"
    have "x / ?u \<le> y / ?u" using assms(2) by (simp add: divide_right_mono)
    then have "roundEven (x / ?u) \<le> roundEven (y / ?u)" by (rule roundEven_mono)
    then have "real_of_int (roundEven (x / ?u)) * ?u \<le> real_of_int (roundEven (y / ?u)) * ?u"
      by (intro mult_right_mono) simp_all
    then show ?thesis by (simp add: toDouble_positive x y True)
  next
    case False
    then have "exponent x + 1 \<le> exponent y"
      using exponent_mono [OF x assms(2)] by simp
    then have "(2::real) powi (exponent x + 1) \<le> 2 powi exponent y"
      by (intro power_int_increasing) simp_all
    then show ?thesis
      using toDouble_in_binade [OF x] toDouble_in_binade [OF y] by linarith
  qed
qed

lemma toDouble_of_nat:
  assumes "n < 2 ^ 53"
  shows "toDouble (real n) = real n"
proof (cases "n = 0")
  case True
  then show ?thesis by (simp add: toDouble_def)
next
  case False
  then have pos: "0 < real n" and one: "1 \<le> real n" by simp_all
  let ?e = "exponentUp (real n)"
  have e: "exponent (real n) = int ?e" using one by (simp add: exponent_def)
  have "2 ^ ?e \<le> real n" using exponentUp_bounds [OF one] by simp
  also have "real n < 2 ^ 53" using assms by (metis of_nat_less_iff of_nat_numeral of_nat_power)
  finally have "(2::real) ^ ?e < 2 ^ 53" .
  then have "?e < 53" by (rule power_less_imp_less_exp [rotated]) simp
  then have le: "?e \<le> 52" by simp
  have u: "(2::real) powi (int ?e - 52) = 1 / 2 ^ (52 - ?e)"
  proof -
    have "int ?e - 52 = - int (52 - ?e)" using le by simp
    then show ?thesis by (simp only: power_int_minus_divide power_int_of_nat)
  qed
  have "real n / (1 / 2 ^ (52 - ?e)) = of_int (int n * 2 ^ (52 - ?e))" by simp
  then have "roundEven (real n / (1 / 2 ^ (52 - ?e))) = int n * 2 ^ (52 - ?e)"
    by (simp only: roundEven_of_int)
  then show ?thesis
    by (simp add: toDouble_positive [OF pos] e u)
qed

lemma mulD_mono: "0 \<le> a \<Longrightarrow> a \<le> b \<Longrightarrow> 0 \<le> c \<Longrightarrow> mulD a c \<le> mulD b c"
  unfolding mulD_def by (intro toDouble_mono mult_right_mono mult_nonneg_nonneg)

lemma divD_mono: "0 \<le> a \<Longrightarrow> a \<le> b \<Longrightarrow> 0 < c \<Longrightarrow> divD a c \<le> divD b c"
  unfolding divD_def by (intro toDouble_mono divide_right_mono divide_nonneg_pos) simp_all

lemma mulD_nonneg: "0 \<le> a \<Longrightarrow> 0 \<le> c \<Longrightarrow> 0 \<le> mulD a c"
  unfolding mulD_def by (intro toDouble_nonneg mult_nonneg_nonneg)

lemma divD_nonneg: "0 \<le> a \<Longrightarrow> 0 < c \<Longrightarrow> 0 \<le> divD a c"
  unfolding divD_def by (intro toDouble_nonneg divide_nonneg_pos)


section \<open>Token estimation\<close>

text \<open>The estimate of a frame through its effective pixel count.\<close>

lemma estimateFrameTokens_positive_width:
  "0 < w \<Longrightarrow>
   estimateFrameTokens w h =
     Num (of_int \<lceil>mulD (mulD (mulD (divD (mulD
            (mulD (min (real w) 1920)
                  (real_of_int (round (divD (mulD (min (real w) 1920) (real h)) (real w)))))
            (toDouble 0.1)) 1024) TOKENS_PER_KB_BASE64) 1000) TOKENS_PER_CHAR\<rceil>)"
  by (simp add: estimateFrameTokens_def Let_def)

lemma constants_nonneg:
  "0 \<le> toDouble 0.1" "0 \<le> TOKENS_PER_KB_BASE64" "0 \<le> TOKENS_PER_CHAR"
  by (simp_all add: TOKENS_PER_KB_BASE64_def TOKENS_PER_CHAR_def toDouble_nonneg)

lemma tokens_mono:
  assumes "0 \<le> p" and "p \<le> q"
  shows "\<lceil>mulD (mulD (mulD (divD (mulD (toDouble p) (toDouble 0.1)) 1024)
            TOKENS_PER_KB_BASE64) 1000) TOKENS_PER_CHAR\<rceil>
       \<le> \<lceil>mulD (mulD (mulD (divD (mulD (toDouble q) (toDouble 0.1)) 1024)
            TOKENS_PER_KB_BASE64) 1000) TOKENS_PER_CHAR\<rceil>"
proof -
  note c = constants_nonneg
  have p0: "0 \<le> toDouble p" using assms(1) by (rule toDouble_nonneg)
  have a: "toDouble p \<le> toDouble q" using assms by (rule toDouble_mono)
  have b0: "0 \<le> mulD (toDouble p) (toDouble 0.1)" using p0 c(1) by (rule mulD_nonneg)
  have b: "mulD (toDouble p) (toDouble 0.1) \<le> mulD (toDouble q) (toDouble 0.1)"
    using p0 a c(1) by (rule mulD_mono)
  have d0: "0 \<le> divD (mulD (toDouble p) (toDouble 0.1)) 1024" using b0 by (rule divD_nonneg) simp
  have d: "divD (mulD (toDouble p) (toDouble 0.1)) 1024 \<le> divD (mulD (toDouble q) (toDouble 0.1)) 1024"
    using b0 b by (rule divD_mono) simp
  have e0: "0 \<le> mulD (divD (mulD (toDouble p) (toDouble 0.1)) 1024) TOKENS_PER_KB_BASE64"
    using d0 c(2) by (rule mulD_nonneg)
  have e: "mulD (divD (mulD (toDouble p) (toDouble 0.1)) 1024) TOKENS_PER_KB_BASE64
         \<le> mulD (divD (mulD (toDouble q) (toDouble 0.1)) 1024) TOKENS_PER_KB_BASE64"
    using d0 d c(2) by (rule mulD_mono)
  have f0: "0 \<le> mulD (mulD (divD (mulD (toDouble p) (toDouble 0.1)) 1024) TOKENS_PER_KB_BASE64) 1000"
    using e0 by (rule mulD_nonneg) simp
  have f: "mulD (mulD (divD (mulD (toDouble p) (toDouble 0.1)) 1024) TOKENS_PER_KB_BASE64) 1000
         \<le> mulD (mulD (divD (mulD (toDouble q) (toDouble 0.1)) 1024) TOKENS_PER_KB_BASE64) 1000"
    using e0 e by (rule mulD_mono) simp
  have "mulD (mulD (mulD (divD (mulD (toDouble p) (toDouble 0.1)) 1024) TOKENS_PER_KB_BASE64) 1000)
             TOKENS_PER_CHAR
      \<le> mulD (mulD (mulD (divD (mulD (toDouble q) (toDouble 0.1)) 1024) TOKENS_PER_KB_BASE64) 1000)
             TOKENS_PER_CHAR"
    using f0 f c(3) by (rule mulD_mono)
  then show ?thesis by (rule ceiling_mono)
qed

lemma mulD_double: "mulD (mulD a b) c = mulD (toDouble (a * b)) c"
  by (simp add: mulD_def)

lemma below_double_range: "(n::nat) \<le> m \<Longrightarrow> m < 2 ^ 53 \<Longrightarrow> n < 2 ^ 53"
  by simp

text \<open>Up to a width of 1920 the effective height is the height.\<close>

lemma effectiveHeight_unscaled:
  assumes "0 < w" and "w \<le> 1920" and "w * h < 2 ^ 53"
  shows "round (divD (mulD (min (real w) 1920) (real h)) (real w)) = int h"
proof -
  have h: "h < 2 ^ 53"
    using assms(1,3) by (intro below_double_range [of h "w * h"]) simp_all
  have "mulD (min (real w) 1920) (real h) = toDouble (real (w * h))"
    using assms(2) by (simp add: mulD_def min_def)
  also have "\<dots> = real (w * h)" using assms(3) by (rule toDouble_of_nat)
  finally have "divD (mulD (min (real w) 1920) (real h)) (real w) = toDouble (real h)"
    using assms(1) by (simp add: divD_def)
  also have "\<dots> = real h" using h by (rule toDouble_of_nat)
  finally show ?thesis by simp
qed

text \<open>Beyond it the effective height is at most the height.\<close>

lemma effectiveHeight_scaled:
  assumes "1920 < w" and "1920 * h < 2 ^ 53"
  shows "0 \<le> round (divD (mulD (min (real w) 1920) (real h)) (real w))
       \<and> round (divD (mulD (min (real w) 1920) (real h)) (real w)) \<le> int h"
proof -
  have h: "h < 2 ^ 53"
    using assms(2) by (intro below_double_range [of h "1920 * h"]) simp_all
  have "mulD (min (real w) 1920) (real h) = toDouble (real (1920 * h))"
    using assms(1) by (simp add: mulD_def min_def)
  also have "\<dots> = real (1920 * h)" using assms(2) by (rule toDouble_of_nat)
  finally have q: "divD (mulD (min (real w) 1920) (real h)) (real w)
      = toDouble (real (1920 * h) / real w)"
    by (simp add: divD_def)
  have "real h * 1920 \<le> real h * real w"
    using assms(1) by (intro mult_left_mono) simp_all
  then have ratio: "real (1920 * h) / real w \<le> real h"
    using assms(1) by (simp add: field_simps)
  have nonneg: "0 \<le> real (1920 * h) / real w" by simp
  have "toDouble (real (1920 * h) / real w) \<le> toDouble (real h)"
    using nonneg ratio by (rule toDouble_mono)
  also have "\<dots> = real h" using h by (rule toDouble_of_nat)
  finally have up: "toDouble (real (1920 * h) / real w) \<le> real h" .
  have low: "0 \<le> toDouble (real (1920 * h) / real w)" using nonneg by (rule toDouble_nonneg)
  have "round (toDouble (real (1920 * h) / real w)) \<le> round (real h)"
    using up by (rule round_mono)
  moreover have "round (0::real) \<le> round (toDouble (real (1920 * h) / real w))"
    using low by (rule round_mono)
  ultimately show ?thesis unfolding q by simp
qed

text \<open>The effective pixel count never exceeds the pixel count.\<close>

lemma effective_pixels:
  assumes "0 < w" and "w * h < 2 ^ 53"
  shows "0 \<le> min (real w) 1920 * real_of_int (round (divD (mulD (min (real w) 1920) (real h)) (real w)))
       \<and> min (real w) 1920 * real_of_int (round (divD (mulD (min (real w) 1920) (real h)) (real w)))
           \<le> real (w * h)"
proof (cases "w \<le> 1920")
  case True
  then show ?thesis
    using effectiveHeight_unscaled [OF assms(1) True assms(2)] by (simp add: min_def)
next
  case False
  then have wide: "1920 < w" by simp
  have "1920 * h \<le> w * h" using wide by simp
  then have small: "1920 * h < 2 ^ 53" using assms(2) by (rule below_double_range)
  let ?eh = "round (divD (mulD (min (real w) 1920) (real h)) (real w))"
  from effectiveHeight_scaled [OF wide small] have eh: "0 \<le> ?eh" "?eh \<le> int h" by simp_all
  have "1920 * real_of_int ?eh \<le> 1920 * real h" using eh(2) by simp
  also have "\<dots> \<le> real w * real h" using wide by (intro mult_right_mono) simp_all
  finally have "1920 * real_of_int ?eh \<le> real (w * h)" by simp
  moreover have "0 \<le> 1920 * real_of_int ?eh" using eh(1) by simp
  ultimately show ?thesis using wide by (simp add: min_def)
qed

lemma estimateFrameTokens_natural:
  "0 < w \<Longrightarrow> \<exists>n. estimateFrameTokens w h = Num (real n)"
proof -
  assume w: "0 < w"
  let ?t = "\<lceil>mulD (mulD (mulD (divD (mulD
            (mulD (min (real w) 1920)
                  (real_of_int (round (divD (mulD (min (real w) 1920) (real h)) (real w)))))
            (toDouble 0.1)) 1024) TOKENS_PER_KB_BASE64) 1000) TOKENS_PER_CHAR\<rceil>"
  have "0 \<le> divD (mulD (min (real w) 1920) (real h)) (real w)"
    using w by (intro divD_nonneg mulD_nonneg) simp_all
  then have "round (0::real) \<le> round (divD (mulD (min (real w) 1920) (real h)) (real w))"
    by (rule round_mono)
  then have "0 \<le> round (divD (mulD (min (real w) 1920) (real h)) (real w))" by simp
  then have "0 \<le> mulD (mulD (mulD (divD (mulD
            (mulD (min (real w) 1920)
                  (real_of_int (round (divD (mulD (min (real w) 1920) (real h)) (real w)))))
            (toDouble 0.1)) 1024) TOKENS_PER_KB_BASE64) 1000) TOKENS_PER_CHAR"
    by (intro divD_nonneg mulD_nonneg constants_nonneg) simp_all
  then have "0 \<le> ?t" by simp
  then have "real_of_int ?t = real (nat ?t)" by simp
  then show ?thesis
    unfolding estimateFrameTokens_positive_width [OF w] by blast
qed

lemma estimateBase64Tokens_natural:
  "\<exists>n. estimateBase64Tokens k = real n"
proof -
  let ?t = "\<lceil>mulD (mulD (mulD (divD (real k) 1024) TOKENS_PER_KB_BASE64) 1000) TOKENS_PER_CHAR\<rceil>"
  have "0 \<le> mulD (mulD (mulD (divD (real k) 1024) TOKENS_PER_KB_BASE64) 1000) TOKENS_PER_CHAR"
    by (intro divD_nonneg mulD_nonneg constants_nonneg) simp_all
  then have "0 \<le> ?t" by simp
  then have "real_of_int ?t = real (nat ?t)" by simp
  then show ?thesis unfolding estimateBase64Tokens_def Let_def by blast
qed

lemma toDouble_steps:
  "toDouble 192000 = 192000"
  "toDouble (96 / 5) = 5404319552844595 / 281474976710656"
  "toDouble 36480 = 36480"
  "toDouble (1 / 10) = 3602879701896397 / 36028797018963968"
  "toDouble (1026820715040473145 / 281474976710656) = 3648"
  "toDouble (57 / 16) = 57 / 16"
  "toDouble (133 / 100) = 748723438050345 / 562949953421312"
  "toDouble (42677235968869665 / 9007199254740992) = 1333663624027177 / 281474976710656"
  "toDouble (166707953003397125 / 35184372088832) = 37905 / 8"
  "toDouble (1 / 4) = 1 / 4"
  "toDouble (37905 / 32) = 37905 / 32"
  "toDouble 1000000 = 1000000"
  "toDouble 1000 = 1000"
  "toDouble (56294995342131203125 / 562949953421312) = 100000"
  "toDouble (3125 / 32) = 3125 / 32"
  "toDouble (2339760743907328125 / 18014398509481984) = 16625 / 128"
  "toDouble (2078125 / 16) = 2078125 / 16"
  "toDouble (2078125 / 64) = 2078125 / 64"
  by (simp_all add: toDouble_def exponent_def exponentUp.simps exponentDown.simps roundEven_def Let_def)

text \<open>
  Claim C7, as stated: whenever the pixel count of resolution A is at least that of B,
  the estimate for A is at least the estimate for B. It fails: the estimator first
  clamps the width to 1920 and scales the height, so a very wide frame of 10000 x 100
  is costed as 1920 x 19, below a 1000 x 1000 frame of the same pixel count.
\<close>

theorem estimate_not_monotonic_in_pixels:
  "(1000::nat) * 1000 \<le> 10000 * 100 \<and>
   estimateFrameTokens 10000 100 = Num 1185 \<and>
   estimateFrameTokens 1000 1000 = Num 32471 \<and>
   \<not> geN (estimateFrameTokens 10000 100) (estimateFrameTokens 1000 1000)"
  by (simp add: estimateFrameTokens_def TOKENS_PER_KB_BASE64_def TOKENS_PER_CHAR_def
      mulD_def divD_def Let_def round_def toDouble_steps)

text \<open>
  Claim C7, amended: when the width of A is positive and at most 1920, so that A is
  not downscaled, and the width of B is positive, a pixel count of A at least that of
  B gives an estimate for A at least the estimate for B. The pixel count of A is
  below \<open>2 ^ 53\<close>, the range in which doubles hold every integer.
\<close>

theorem estimate_monotonic_unscaled:
  assumes "0 < wA" and "wA \<le> 1920" and "0 < wB"
    and "wB * hB \<le> wA * hA" and "wA * hA < 2 ^ 53"
  shows "geN (estimateFrameTokens wA hA) (estimateFrameTokens wB hB)"
proof -
  let ?pA = "min (real wA) 1920 *
    real_of_int (round (divD (mulD (min (real wA) 1920) (real hA)) (real wA)))"
  let ?pB = "min (real wB) 1920 *
    real_of_int (round (divD (mulD (min (real wB) 1920) (real hB)) (real wB)))"
  have small: "wB * hB < 2 ^ 53" using assms(4,5) by (rule below_double_range)
  have "?pA = real (wA * hA)"
    using effectiveHeight_unscaled [OF assms(1,2,5)] assms(2) by (simp add: min_def)
  moreover have "0 \<le> ?pB" and "?pB \<le> real (wB * hB)"
    using effective_pixels [OF assms(3) small] by simp_all
  moreover have "real (wB * hB) \<le> real (wA * hA)"
    using assms(4) by (simp only: of_nat_le_iff)
  ultimately have "0 \<le> ?pB" and "?pB \<le> ?pA" by simp_all
  then have "\<lceil>mulD (mulD (mulD (divD (mulD (toDouble ?pB) (toDouble 0.1)) 1024)
            TOKENS_PER_KB_BASE64) 1000) TOKENS_PER_CHAR\<rceil>
       \<le> \<lceil>mulD (mulD (mulD (divD (mulD (toDouble ?pA) (toDouble 0.1)) 1024)
            TOKENS_PER_KB_BASE64) 1000) TOKENS_PER_CHAR\<rceil>"
    by (rule tokens_mono)
  then show ?thesis
    unfolding estimateFrameTokens_positive_width [OF assms(1)]
      estimateFrameTokens_positive_width [OF assms(3)] mulD_double geN.simps of_int_le_iff .
qed

theorem estimate_monotonic_unscaled_witness:
  "(0::nat) < 1920 \<and> (1920::nat) \<le> 1920 \<and> (0::nat) < 2560 \<and>
   (2560::nat) * 720 \<le> 1920 * 1080 \<and> (1920::nat) * 1080 < 2 ^ 53 \<and>
   geN (estimateFrameTokens 1920 1080) (estimateFrameTokens 2560 720)"
  using estimate_monotonic_unscaled [of 1920 2560 720 1080] by simp

text \<open>A stream without a width is read as width 0, and every estimate at width 0 is \<open>NaN\<close>.\<close>

lemma resolvedMetadata_no_width:
  "streamWidth videoStream = None \<Longrightarrow>
   width (resolvedMetadata probed videoStream audioStream bytes) = 0"
  by (simp add: resolvedMetadata_def)

lemma estimateFrameTokens_no_width: "estimateFrameTokens 0 h = NaN"
  by (simp add: estimateFrameTokens_def)

text \<open>
  Claim C8 says that the estimators never fail and always return a non-negative
  integer. For a video whose stream reports no width, \<open>getMetadata\<close> sets the width
  to 0, and \<open>estimateFrameTokens\<close> then divides zero by zero: the result is \<open>NaN\<close>.
\<close>

theorem estimateFrameTokens_zero_width:
  "estimateFrameTokens 0 0 = NaN"
  by (simp add: estimateFrameTokens_def)

section \<open>Analysis hints\<close>




text \<open>The short branch and its fractional interval, for comparison.\<close>

lemma short_video_hint:
  "duration m < 30 \<Longrightarrow>
   parameters (hd (generateAnalysisHints m))
     = Some [(''maxFrames'', 10), (''interval'', max 1 (duration m / 10))]"
  by (simp add: generateAnalysisHints_def)


section \<open>Context hints\<close>

text \<open>
  The \<open>reduce\<close> over the references adds doubles. Whole numbers whose sum stays below
  \<open>2 ^ 53\<close> are added exactly, and the estimates of the frame plan are whole numbers;
  one \<open>NaN\<close> among the estimates makes the total \<open>NaN\<close>.
\<close>

lemma foldl_addN_naturals:
  "map estimatedTokens frs = map (\<lambda>n. Num (real n)) ns \<Longrightarrow> a + sum_list ns < 2 ^ 53 \<Longrightarrow>
   foldl (\<lambda>sum f. addN sum (estimatedTokens f)) (Num (real a)) frs
     = Num (real (a + sum_list ns))"
proof (induction frs arbitrary: a ns)
  case Nil
  then show ?case by simp
next
  case (Cons f frs)
  from Cons.prems(1) obtain n ns' where ns: "ns = n # ns'"
    and f: "estimatedTokens f = Num (real n)"
    and rest: "map estimatedTokens frs = map (\<lambda>n. Num (real n)) ns'"
    by (cases ns) auto
  have bound: "(a + n) + sum_list ns' < 2 ^ 53"
    using Cons.prems(2) ns by (simp add: add.assoc)
  have "a + n \<le> (a + n) + sum_list ns'" by simp
  then have "a + n < 2 ^ 53" using bound by (rule below_double_range)
  then have "toDouble (real (a + n)) = real (a + n)" by (rule toDouble_of_nat)
  then have step: "addN (Num (real a)) (estimatedTokens f) = Num (real (a + n))"
    using f by simp
  show ?case
    using Cons.IH [OF rest bound] step ns by (simp add: add.assoc)
qed

lemma totalFrameTokens_naturals:
  assumes "map estimatedTokens frs = map (\<lambda>n. Num (real n)) ns" and "sum_list ns < 2 ^ 53"
  shows "totalFrameTokens frs = Num (real (sum_list ns))"
  using foldl_addN_naturals [OF assms(1), of 0] assms(2)
  by (simp add: totalFrameTokens_def)

lemma foldl_addN_from_NaN:
  "foldl (\<lambda>sum f. addN sum (estimatedTokens f)) NaN frs = NaN"
  by (induction frs) simp_all

lemma foldl_addN_NaN:
  "NaN \<in> set (map estimatedTokens frs) \<Longrightarrow>
   foldl (\<lambda>sum f. addN sum (estimatedTokens f)) acc frs = NaN"
proof (induction frs arbitrary: acc)
  case Nil
  then show ?case by simp
next
  case (Cons f frs)
  show ?case
  proof (cases "estimatedTokens f")
    case NaN
    then have "addN acc (estimatedTokens f) = NaN" by (cases acc) simp_all
    then show ?thesis by (simp add: foldl_addN_from_NaN)
  next
    case (Num x)
    then have "NaN \<in> set (map estimatedTokens frs)" using Cons.prems by auto
    then show ?thesis using Cons.IH by simp
  qed
qed

lemma totalFrameTokens_NaN:
  "NaN \<in> set (map estimatedTokens frs) \<Longrightarrow> totalFrameTokens frs = NaN"
  by (simp add: totalFrameTokens_def foldl_addN_NaN)

lemma warning_iff_total:
  "(\<exists>h \<in> set (generateContextHints m frs). hintType h = Warning)
     \<longleftrightarrow> gtN (totalFrameTokens frs) (Num 50000)"
  by (auto simp add: generateContextHints_def sortByPriority_def Let_def WARNING_TOKEN_THRESHOLD_def)

lemma warning_priority_iff_total:
  "(\<exists>h \<in> set (generateContextHints m frs). hintType h = Warning \<and> priority h = 10)
     \<longleftrightarrow> gtN (totalFrameTokens frs) (Num 50000)"
  by (auto simp add: generateContextHints_def sortByPriority_def Let_def WARNING_TOKEN_THRESHOLD_def)

lemma warning_first:
  "gtN (totalFrameTokens frs) (Num 50000) \<Longrightarrow>
   hintType (hd (generateContextHints m frs)) = Warning
   \<and> priority (hd (generateContextHints m frs)) = 10"
  by (simp add: generateContextHints_def sortByPriority_def Let_def WARNING_TOKEN_THRESHOLD_def)

lemma hints_sorted:
  "sorted_wrt (\<lambda>a b. priority a \<ge> priority b) (generateContextHints m frs)"
  by (simp add: generateContextHints_def sortByPriority_def Let_def WARNING_TOKEN_THRESHOLD_def)

lemma action_hint:
  "\<exists>h \<in> set (generateContextHints m frs). hintType h = Action \<and> priority h = 3"
  by (simp add: generateContextHints_def sortByPriority_def Let_def WARNING_TOKEN_THRESHOLD_def)

text \<open>
  Claim C3: for every metadata and every list of frame references, the hints come
  sorted by descending priority and contain the action hint of priority 3. When the
  estimated tokens of the references are whole numbers \<open>ns\<close> (with a sum below
  \<open>2 ^ 53\<close>), the warning of priority 10 is among the hints exactly when the sum of all
  of \<open>ns\<close> is more than 50000, and then it is the first hint. When one of the estimates
  is \<open>NaN\<close>, there is no warning.
\<close>

theorem generateContextHints_order:
  "sorted_wrt (\<lambda>a b. priority a \<ge> priority b) (generateContextHints m frs)
   \<and> (\<exists>h \<in> set (generateContextHints m frs). hintType h = Action \<and> priority h = 3)
   \<and> (\<forall>ns. map estimatedTokens frs = map (\<lambda>n. Num (real n)) ns \<and> sum_list ns < 2 ^ 53 \<longrightarrow>
         ((\<exists>h \<in> set (generateContextHints m frs). hintType h = Warning \<and> priority h = 10)
            \<longleftrightarrow> 50000 < sum_list ns)
         \<and> (50000 < sum_list ns \<longrightarrow>
              hintType (hd (generateContextHints m frs)) = Warning
              \<and> priority (hd (generateContextHints m frs)) = 10))
   \<and> (NaN \<in> set (map estimatedTokens frs) \<longrightarrow>
         \<not> (\<exists>h \<in> set (generateContextHints m frs). hintType h = Warning))"
proof (intro conjI allI impI)
  show "sorted_wrt (\<lambda>a b. priority a \<ge> priority b) (generateContextHints m frs)"
    by (rule hints_sorted)
  show "\<exists>h \<in> set (generateContextHints m frs). hintType h = Action \<and> priority h = 3"
    by (rule action_hint)
next
  fix ns :: "nat list"
  assume "map estimatedTokens frs = map (\<lambda>n. Num (real n)) ns \<and> sum_list ns < 2 ^ 53"
  then have total: "totalFrameTokens frs = Num (real (sum_list ns))"
    by (simp add: totalFrameTokens_naturals)
  have gt: "gtN (Num (real (sum_list ns))) (Num 50000) \<longleftrightarrow> 50000 < sum_list ns"
    by (simp only: gtN.simps) linarith
  show "(\<exists>h \<in> set (generateContextHints m frs). hintType h = Warning \<and> priority h = 10)
          \<longleftrightarrow> 50000 < sum_list ns"
    unfolding warning_priority_iff_total total gt ..
  assume "50000 < sum_list ns"
  then have "gtN (totalFrameTokens frs) (Num 50000)" unfolding total gt .
  then have first: "hintType (hd (generateContextHints m frs)) = Warning
      \<and> priority (hd (generateContextHints m frs)) = 10"
    by (rule warning_first)
  from first show "hintType (hd (generateContextHints m frs)) = Warning" ..
  from first show "priority (hd (generateContextHints m frs)) = 10" ..
next
  assume "NaN \<in> set (map estimatedTokens frs)"
  then have "totalFrameTokens frs = NaN" by (rule totalFrameTokens_NaN)
  then have "\<not> gtN (totalFrameTokens frs) (Num 50000)" by simp
  then show "\<not> (\<exists>h \<in> set (generateContextHints m frs). hintType h = Warning)"
    unfolding warning_iff_total .
qed

text \<open>
  Two references of 30000 tokens each: neither exceeds the threshold, their sum does.
  And two references of which one has no estimate.
\<close>

theorem generateContextHints_order_witness:
  "map estimatedTokens [sampleReference 0 (Num 30000), sampleReference 1 (Num 30000)]
     = map (\<lambda>n. Num (real n)) [30000, 30000]
   \<and> sum_list [30000, 30000 :: nat] < 2 ^ 53
   \<and> 50000 < sum_list [30000, 30000 :: nat]
   \<and> (\<exists>h \<in> set (generateContextHints (sampleMetadata 100)
             [sampleReference 0 (Num 30000), sampleReference 1 (Num 30000)]).
         hintType h = Warning \<and> priority h = 10)
   \<and> hintType (hd (generateContextHints (sampleMetadata 100)
        [sampleReference 0 (Num 30000), sampleReference 1 (Num 30000)])) = Warning
   \<and> priority (hd (generateContextHints (sampleMetadata 100)
        [sampleReference 0 (Num 30000), sampleReference 1 (Num 30000)])) = 10
   \<and> NaN \<in> set (map estimatedTokens [sampleReference 0 (Num 60000), sampleReference 1 NaN])
   \<and> \<not> (\<exists>h \<in> set (generateContextHints (sampleMetadata 100)
             [sampleReference 0 (Num 60000), sampleReference 1 NaN]). hintType h = Warning)"
proof -
  let ?frs = "[sampleReference 0 (Num 30000), sampleReference 1 (Num 30000)]"
  let ?bad = "[sampleReference 0 (Num 60000), sampleReference 1 NaN]"
  have a: "map estimatedTokens ?frs = map (\<lambda>n. Num (real n)) [30000, 30000]"
    by (simp add: sampleReference_def)
  have b: "sum_list [30000, 30000 :: nat] < 2 ^ 53" by simp
  have c: "50000 < sum_list [30000, 30000 :: nat]" by simp
  have d: "NaN \<in> set (map estimatedTokens ?bad)" by (simp add: sampleReference_def)
  show ?thesis
    using a b c d generateContextHints_order [of "sampleMetadata 100" ?frs]
      generateContextHints_order [of "sampleMetadata 100" ?bad]
    by blast
qed


section \<open>Frame references\<close>

lemma loop_guard_iff:
  assumes "0 < interval"
  shows "(real i < n \<and> real i * interval < d) \<longleftrightarrow> i < nat (min \<lceil>n\<rceil> \<lceil>d / interval\<rceil>)"
proof -
  have a: "real i < n \<longleftrightarrow> int i < \<lceil>n\<rceil>"
    using less_ceiling_iff [of "int i" n] by simp
  have "real i * interval < d \<longleftrightarrow> real i < d / interval"
    using assms by (simp add: pos_less_divide_eq)
  also have "\<dots> \<longleftrightarrow> int i < \<lceil>d / interval\<rceil>"
    using less_ceiling_iff [of "int i" "d / interval"] by simp
  finally have b: "real i * interval < d \<longleftrightarrow> int i < \<lceil>d / interval\<rceil>" .
  show ?thesis unfolding a b by auto
qed

lemma framesLoop_unfolded:
  "0 < interval \<Longrightarrow>
   framesLoop m n interval i acc =
     acc @ map (frameReferenceAt m interval)
             [i ..< max i (nat (min \<lceil>n\<rceil> \<lceil>duration m / interval\<rceil>))]"
proof (induction m n interval i acc rule: framesLoop.induct)
  case (1 m n interval i acc)
  let ?k = "nat (min \<lceil>n\<rceil> \<lceil>duration m / interval\<rceil>)"
  have cond: "(real i < n \<and> real i * interval < duration m) \<longleftrightarrow> i < ?k"
    by (rule loop_guard_iff [OF "1.prems"])
  show ?case
  proof (cases "i < ?k")
    case True
    then have g: "real i < n \<and> real i * interval < duration m"
      using cond by simp
    have "framesLoop m n interval i acc =
          framesLoop m n interval (Suc i) (acc @ [frameReferenceAt m interval i])"
      using g by (subst framesLoop.simps) simp
    also have "\<dots> = (acc @ [frameReferenceAt m interval i]) @
                 map (frameReferenceAt m interval) [Suc i ..< max (Suc i) ?k]"
      using "1.IH" [OF g "1.prems"] .
    also have "\<dots> = acc @ map (frameReferenceAt m interval) [i ..< max i ?k]"
      using True by (simp add: upt_conv_Cons max_def)
    finally show ?thesis .
  next
    case False
    then have ng: "\<not> (real i < n \<and> real i * interval < duration m)"
      using cond by simp
    have "framesLoop m n interval i acc = acc"
      by (subst framesLoop.simps) (rule if_not_P [OF ng])
    then show ?thesis using False by (simp add: max_def)
  qed
qed

lemma frameInterval_positive: "0 < frameInterval d n"
  by (simp add: frameInterval_def)

lemma planFrames_unfolded:
  "planFrames m n =
     map (frameReferenceAt m (frameInterval (duration m) n))
       [0 ..< nat (min \<lceil>n\<rceil> \<lceil>duration m / frameInterval (duration m) n\<rceil>)]"
  unfolding planFrames_def by (simp add: framesLoop_unfolded [OF frameInterval_positive])



lemma planFrames_length:
  "length (planFrames m n) = nat (min \<lceil>n\<rceil> \<lceil>duration m / frameInterval (duration m) n\<rceil>)"
  by (simp add: planFrames_unfolded)



lemma planFrames_member:
  "i < length (planFrames m n) \<longleftrightarrow>
     (real i < n \<and> real i * frameInterval (duration m) n < duration m)"
  unfolding planFrames_length
  using loop_guard_iff [of "frameInterval (duration m) n" i n "duration m"]
    frameInterval_positive [of "duration m" n]
  by simp

text \<open>A request for no frames at all (or fewer) plans nothing.\<close>

lemma planFrames_no_request: "n \<le> 0 \<Longrightarrow> planFrames m n = []"
  using planFrames_member [of 0 m n] by simp



section \<open>The frame cache is never read\<close>

lemma emit_cache: "emit e (s\<lparr>frameCache := c\<rparr>) = (emit e s)\<lparr>frameCache := c\<rparr>"
  by (simp add: emit_def)

lemma ensureTempDir_cache:
  "ensureTempDir w (s\<lparr>frameCache := c\<rparr>) = (ensureTempDir w s)\<lparr>frameCache := c\<rparr>"
  by (simp add: ensureTempDir_def emit_cache)

lemma getMetadata_cache:
  "getMetadata w p (s\<lparr>frameCache := c\<rparr>) =
     (fst (getMetadata w p s), (snd (getMetadata w p s))\<lparr>frameCache := c\<rparr>)"
  by (simp add: getMetadata_def Let_def emit_cache split: sum.splits option.splits)

lemma getMetadataSummary_cache:
  "getMetadataSummary w p (s\<lparr>frameCache := c\<rparr>) =
     (fst (getMetadataSummary w p s), (snd (getMetadataSummary w p s))\<lparr>frameCache := c\<rparr>)"
  by (simp add: getMetadataSummary_def getMetadata_cache case_prod_beta split: sum.splits)

lemma getVideoOverview_cache:
  "fst (getVideoOverview w p fc (s\<lparr>frameCache := c\<rparr>)) = fst (getVideoOverview w p fc s) \<and>
   calls (snd (getVideoOverview w p fc (s\<lparr>frameCache := c\<rparr>)))
     = calls (snd (getVideoOverview w p fc s))"
  by (simp add: getVideoOverview_def getMetadata_cache getMetadataSummary_cache case_prod_beta
      Let_def split: sum.splits)

lemma estimateTokens_cache:
  "estimateTokens w p fc (s\<lparr>frameCache := c\<rparr>) =
     (fst (estimateTokens w p fc s), (snd (estimateTokens w p fc s))\<lparr>frameCache := c\<rparr>)"
  by (simp add: estimateTokens_def getMetadata_cache case_prod_beta Let_def split: sum.splits)

lemma extractSingleFrame_cache:
  "extractSingleFrame w p ts opts (s\<lparr>frameCache := c\<rparr>) =
     (fst (extractSingleFrame w p ts opts s),
      (snd (extractSingleFrame w p ts opts s))\<lparr>frameCache := c\<rparr>)"
  by (simp add: extractSingleFrame_def ensureTempDir_cache emit_cache Let_def)

lemma extractEach_cache:
  "extractEach w p tss opts (s\<lparr>frameCache := c\<rparr>) =
     (fst (extractEach w p tss opts s), (snd (extractEach w p tss opts s))\<lparr>frameCache := c\<rparr>)"
  by (induction tss arbitrary: s) (simp_all add: extractSingleFrame_cache case_prod_beta)

lemma extractAudio_cache:
  "extractAudio w p f b st en (s\<lparr>frameCache := c\<rparr>) =
     (fst (extractAudio w p f b st en s), (snd (extractAudio w p f b st en s))\<lparr>frameCache := c\<rparr>)"
proof (cases "runAudio w (audioCommandOf p (case f of None \<Rightarrow> Mp3 | Some x \<Rightarrow> x)
                 (case b of None \<Rightarrow> ''128k'' | Some x \<Rightarrow> x) st en
                 (joinPath (tempDir w) (''audio-'' @ showNat (now w) @ ''.'' @
                    audioFormatName (case f of None \<Rightarrow> Mp3 | Some x \<Rightarrow> x))))")
  case None
  then show ?thesis
    by (simp add: extractAudio_def ensureTempDir_cache emit_cache Let_def)
next
  case (Some msg)
  then show ?thesis
    by (simp add: extractAudio_def ensureTempDir_cache emit_cache Let_def)
qed


lemma extractLoop_cache:
  "extractLoop w p dir iv opts n i acc (s\<lparr>frameCache := c\<rparr>) =
     (fst (extractLoop w p dir iv opts n i acc s),
      (snd (extractLoop w p dir iv opts n i acc s))\<lparr>frameCache := c\<rparr>)"
proof (induction w p dir iv opts n i acc s rule: extractLoop.induct)
  case (1 w p dir iv opts n i acc s)
  show ?case
  proof (cases "real i < n")
    case False
    then show ?thesis
      by (simp add: extractLoop.simps [of w p dir iv opts n i acc])
  next
    case True
    note guard = True
    show ?thesis
    proof (cases "grabFrame w p (real i * iv)")
      case (Inl e)
      then show ?thesis
        using guard by (simp add: extractLoop.simps [of w p dir iv opts n i acc] emit_cache Let_def)
    next
      case (Inr img)
      note grabbed = Inr
      show ?thesis
      proof (cases "processImage w img opts")
        case (Inl e)
        then show ?thesis
          using guard grabbed
          by (simp add: extractLoop.simps [of w p dir iv opts n i acc] emit_cache Let_def)
      next
        case (Inr enc)
        then show ?thesis
          using guard grabbed "1.IH" [OF guard refl refl refl grabbed Inr]
          by (simp add: extractLoop.simps [of w p dir iv opts n i acc] emit_cache Let_def)
      qed
    qed
  qed
qed

lemma extractFrames_cache:
  "extractFrames w p mf iv opts (s\<lparr>frameCache := c\<rparr>) =
     (fst (extractFrames w p mf iv opts s), (snd (extractFrames w p mf iv opts s))\<lparr>frameCache := c\<rparr>)"
proof (cases "fst (getMetadata w p (emit (Mkdir (joinPath (tempDir w) (''frames-'' @ showNat (now w))))
                (ensureTempDir w s)))")
  case (Inl e)
  then show ?thesis
    by (simp add: extractFrames_def ensureTempDir_cache emit_cache getMetadata_cache
        case_prod_beta Let_def)
next
  case (Inr m)
  then show ?thesis
    by (simp add: extractFrames_def ensureTempDir_cache emit_cache getMetadata_cache
        extractLoop_cache case_prod_beta Let_def)
qed

lemma analyzeVideo_cache:
  "analyzeVideo w p ef mf ea iv (s\<lparr>frameCache := c\<rparr>) =
     (fst (analyzeVideo w p ef mf ea iv s), (snd (analyzeVideo w p ef mf ea iv s))\<lparr>frameCache := c\<rparr>)"
  by (simp add: analyzeVideo_def getMetadata_cache extractFrames_cache extractAudio_cache emit_cache
      case_prod_beta sum.case_eq_if)

lemma dispatch_cache:
  "fst (dispatch w req (s\<lparr>frameCache := c\<rparr>)) = fst (dispatch w req s) \<and>
   calls (snd (dispatch w req (s\<lparr>frameCache := c\<rparr>))) = calls (snd (dispatch w req s))"
proof (cases req)
  case (GetVideoOverview p fc)
  then show ?thesis
    using getVideoOverview_cache [where w = w and p = p and s = "emit (Access p) s" and c = c]
    by (simp add: handleGetVideoOverview_def emit_cache case_prod_beta sum.case_eq_if Let_def)
next
  case (GetVideoMetadata p)
  then show ?thesis
    by (simp add: handleGetVideoMetadata_def emit_cache getMetadata_cache getMetadataSummary_cache
        case_prod_beta sum.case_eq_if Let_def)
next
  case (EstimateAnalysisCost p fc)
  then show ?thesis
    by (simp add: handleEstimateAnalysisCost_def emit_cache estimateTokens_cache
        case_prod_beta sum.case_eq_if Let_def)
next
  case (GetFrame p ts mw fmt q)
  then show ?thesis
    by (simp add: handleGetFrame_def emit_cache extractSingleFrame_cache
        case_prod_beta sum.case_eq_if Let_def)
next
  case (GetFramesBatch p tss mw fmt)
  then show ?thesis
    by (simp add: handleGetFramesBatch_def emit_cache extractEach_cache
        case_prod_beta sum.case_eq_if Let_def)
next
  case (ExtractAudio p fmt br st en)
  then show ?thesis
    by (simp add: handleExtractAudio_def emit_cache getMetadata_cache extractAudio_cache
        case_prod_beta sum.case_eq_if Let_def)
next
  case (AnalyzeVideoFull p mf ea iv)
  then show ?thesis
    by (simp add: handleAnalyzeVideoFull_def emit_cache estimateTokens_cache analyzeVideo_cache
        getMetadataSummary_cache case_prod_beta sum.case_eq_if Let_def)
next
  case (UnknownTool name)
  then show ?thesis by simp
qed

lemma emit_frameCache: "frameCache (emit e s) = frameCache s"
  by (simp add: emit_def)

lemma getMetadata_frameCache: "frameCache (snd (getMetadata w p s)) = frameCache s"
  by (simp add: getMetadata_def Let_def emit_frameCache sum.case_eq_if option.case_eq_if)

lemma getMetadataSummary_frameCache: "frameCache (snd (getMetadataSummary w p s)) = frameCache s"
  by (simp add: getMetadataSummary_def getMetadata_frameCache case_prod_beta sum.case_eq_if)

lemma getVideoOverview_writes_cache:
  assumes "getVideoOverview w p fc s = (Inr overview, s')"
  shows "frameCache s' = (frameCache s)(p \<mapsto> availableFrames overview)"
proof -
  let ?r1 = "getMetadata w p s"
  let ?r2 = "getMetadataSummary w p (snd ?r1)"
  from assms have a: "\<not> isl (fst ?r1)" and b: "\<not> isl (fst ?r2)"
    by (auto simp: getVideoOverview_def case_prod_beta sum.case_eq_if Let_def split: if_splits)
  from assms a b have "availableFrames overview =
      planFrames (projr (fst ?r1)) (case fc of None \<Rightarrow> 10 | Some n \<Rightarrow> n)"
    and "s' = (snd ?r2)\<lparr>frameCache := (frameCache (snd ?r2))
                (p \<mapsto> planFrames (projr (fst ?r1)) (case fc of None \<Rightarrow> 10 | Some n \<Rightarrow> n))\<rparr>"
    by (auto simp: getVideoOverview_def overviewOf_def case_prod_beta sum.case_eq_if Let_def)
  then show ?thesis
    by (simp add: getMetadata_frameCache getMetadataSummary_frameCache)
qed

text \<open>
  Claim C10: the frame cache is written by the overview and read by nothing. Running
  any tool from two states that differ in the cache only gives the same answer and
  makes the same calls; an overview that succeeds overwrites the entry of its path
  with the references it returns.
\<close>

theorem frameCache_never_read:
  "fst (callTool w req (s\<lparr>frameCache := c\<rparr>)) = fst (callTool w req s)
   \<and> calls (snd (callTool w req (s\<lparr>frameCache := c\<rparr>))) = calls (snd (callTool w req s))
   \<and> (\<forall>path fc overview s'.
         getVideoOverview w path fc s = (Inr overview, s') \<longrightarrow>
         frameCache s' = (frameCache s)(path \<mapsto> availableFrames overview))"
  using dispatch_cache [where w = w and req = req and s = s and c = c]
    getVideoOverview_writes_cache [where w = w and s = s]
  by (simp add: callTool_def case_prod_beta sum.case_eq_if)


lemma sample_getMetadata:
  "getMetadata sampleWorld ''/v.mp4'' s =
     (Inr (sampleMetadata 100), emit (Stat ''/v.mp4'') (emit (Ffprobe ''/v.mp4'') s))"
  by (simp add: getMetadata_def resolvedMetadata_def sampleWorld_def sampleProbe_def
      sampleMetadata_def Let_def)

theorem frameCache_never_read_witness:
  "\<not> isl (fst (getVideoOverview sampleWorld ''/v.mp4'' (Some 2) freshProcessor))
   \<and> frameCache (snd (getVideoOverview sampleWorld ''/v.mp4'' (Some 2) freshProcessor)) ''/v.mp4''
       = Some (availableFrames
                 (projr (fst (getVideoOverview sampleWorld ''/v.mp4'' (Some 2) freshProcessor))))"
proof -
  let ?run = "getVideoOverview sampleWorld ''/v.mp4'' (Some 2) freshProcessor"
  have ok: "\<not> isl (fst ?run)"
    by (simp add: getVideoOverview_def getMetadataSummary_def sample_getMetadata Let_def)
  then have "?run = (Inr (projr (fst ?run)), snd ?run)"
    by (cases ?run) (auto simp: isl_def)
  then have "frameCache (snd ?run) =
      (frameCache freshProcessor)(''/v.mp4'' \<mapsto> availableFrames (projr (fst ?run)))"
    using frameCache_never_read [where w = sampleWorld and s = freshProcessor
        and req = "GetVideoOverview ''/v.mp4'' (Some 2)" and c = Map.empty]
    by blast
  then show ?thesis using ok by simp
qed


section \<open>What the overview calls\<close>

lemma otherCalls_emit:
  "otherCalls (emit e s) = otherCalls s @ (if isProbe e then [] else [e])"
  by (simp add: otherCalls_def emit_def)

lemma extractions_emit:
  "extractions (emit e s) = extractions s @ (if isExtraction e then [e] else [])"
  by (simp add: extractions_def emit_def)

lemma otherCalls_cache: "otherCalls (s\<lparr>frameCache := c\<rparr>) = otherCalls s"
  by (simp add: otherCalls_def)

lemma extractions_cache: "extractions (s\<lparr>frameCache := c\<rparr>) = extractions s"
  by (simp add: extractions_def)

lemma getMetadata_otherCalls: "otherCalls (snd (getMetadata w p s)) = otherCalls s"
  by (simp add: getMetadata_def Let_def otherCalls_emit sum.case_eq_if option.case_eq_if)

lemma getMetadata_extractions: "extractions (snd (getMetadata w p s)) = extractions s"
  by (simp add: getMetadata_def Let_def extractions_emit sum.case_eq_if option.case_eq_if)

lemma getMetadataSummary_otherCalls: "otherCalls (snd (getMetadataSummary w p s)) = otherCalls s"
  by (simp add: getMetadataSummary_def getMetadata_otherCalls case_prod_beta sum.case_eq_if)

lemma getMetadataSummary_extractions: "extractions (snd (getMetadataSummary w p s)) = extractions s"
  by (simp add: getMetadataSummary_def getMetadata_extractions case_prod_beta sum.case_eq_if)

lemma getVideoOverview_otherCalls: "otherCalls (snd (getVideoOverview w p fc s)) = otherCalls s"
  by (simp add: getVideoOverview_def getMetadata_otherCalls getMetadataSummary_otherCalls
      otherCalls_cache case_prod_beta sum.case_eq_if Let_def)

lemma getVideoOverview_extractions: "extractions (snd (getVideoOverview w p fc s)) = extractions s"
  by (simp add: getVideoOverview_def getMetadata_extractions getMetadataSummary_extractions
      extractions_cache case_prod_beta sum.case_eq_if Let_def)

text \<open>
  Claim C1: for every path and every frame count, the overview, as a method and as
  the tool \<open>get_video_overview\<close>, makes no call that decodes a frame or extracts
  audio; beyond probing the file it makes no call at all.
\<close>

theorem overview_never_extracts:
  "extractions (snd (getVideoOverview w path frameCount s)) = extractions s
   \<and> otherCalls (snd (getVideoOverview w path frameCount s)) = otherCalls s
   \<and> extractions (snd (callTool w (GetVideoOverview path frameCount) s)) = extractions s
   \<and> otherCalls (snd (callTool w (GetVideoOverview path frameCount) s)) = otherCalls s"
  by (simp add: getVideoOverview_extractions getVideoOverview_otherCalls callTool_def
      handleGetVideoOverview_def extractions_emit otherCalls_emit case_prod_beta
      sum.case_eq_if Let_def)

text \<open>The calls of an overview on the sample video, in full.\<close>

lemma sample_access: "access sampleWorld p \<longleftrightarrow> p = ''/v.mp4''"
  by (simp add: sampleWorld_def)

lemma sample_overview_calls:
  "calls (snd (callTool sampleWorld (GetVideoOverview ''/v.mp4'' None) freshProcessor)) =
     [Access ''/v.mp4'', Ffprobe ''/v.mp4'', Stat ''/v.mp4'', Ffprobe ''/v.mp4'', Stat ''/v.mp4'']"
  by (simp add: callTool_def handleGetVideoOverview_def getVideoOverview_def
      getMetadataSummary_def sample_getMetadata sample_access freshProcessor_def emit_def Let_def)

section \<open>Audio extraction without an audio track\<close>

lemma getMetadata_Inr:
  assumes "fst (getMetadata w p s) = Inr m"
  shows "getMetadata w p t = (Inr m, emit (Stat p) (emit (Ffprobe p) t))"
proof (cases "ffprobe w p")
  case (Inl msg)
  then show ?thesis using assms by (simp add: getMetadata_def)
next
  case (Inr probed)
  note probed = Inr
  show ?thesis
  proof (cases "find (\<lambda>st. codec_type st = ''video'') (streams probed)")
    case None
    then show ?thesis using assms probed by (simp add: getMetadata_def)
  next
    case (Some videoStream)
    then show ?thesis using assms probed by (simp add: getMetadata_def Let_def)
  qed
qed

text \<open>
  Claim C6: when the file exists and its probed metadata reports no audio track,
  \<open>extract_audio\<close> answers with the failure ``Video does not have an audio track'';
  it has then checked the file and probed it, and made no other call: the extractor is
  not run and no temporary directory or file is made. The cache is left as it was.
\<close>

theorem extract_audio_without_track:
  assumes "access w path"
    and "fst (getMetadata w path s) = Inr m"
    and "\<not> hasAudio m"
  shows "callTool w (ExtractAudio path fmt rate startTime endTime) s =
           (noAudioResult, s\<lparr>calls := calls s @ [Access path, Ffprobe path, Stat path]\<rparr>)"
  using assms(1,3) getMetadata_Inr [OF assms(2), of "emit (Access path) s"]
  by (simp add: callTool_def handleExtractAudio_def emit_def Let_def)

theorem extract_audio_without_track_witness:
  "access sampleWorld ''/v.mp4''
   \<and> fst (getMetadata sampleWorld ''/v.mp4'' freshProcessor) = Inr (sampleMetadata 100)
   \<and> \<not> hasAudio (sampleMetadata 100)
   \<and> callTool sampleWorld (ExtractAudio ''/v.mp4'' None None None None) freshProcessor =
        (noAudioResult,
         freshProcessor\<lparr>calls := calls freshProcessor
                          @ [Access ''/v.mp4'', Ffprobe ''/v.mp4'', Stat ''/v.mp4'']\<rparr>)"
proof -
  have a: "access sampleWorld ''/v.mp4''" by (simp add: sample_access)
  have b: "fst (getMetadata sampleWorld ''/v.mp4'' freshProcessor) = Inr (sampleMetadata 100)"
    by (simp add: sample_getMetadata)
  have c: "\<not> hasAudio (sampleMetadata 100)" by (simp add: sampleMetadata_def)
  show ?thesis
    using a b c extract_audio_without_track [OF a b c, of None None None None] by simp
qed

end
